theory Spec2Isabelle
  imports Complex_Main "HOL-Library.AList" "HOL-Library.Sublist" "HOL-Library.Log_Nat"
begin

section \<open>Data model\<close>

text \<open>
  The watchers of the three modules \<^verbatim>\<open>stoploss-manager.ts\<close>, \<^verbatim>\<open>alert-manager.ts\<close> and
  \<^verbatim>\<open>websocket-alert-manager.ts\<close>. An optional field of an interface is an \<open>option\<close>.
\<close>

subsection \<open>JavaScript numbers\<close>

text \<open>
  A JavaScript number is an IEEE 754 binary64 value. A finite one is given here by its
  exact value, a rational; the two infinities (\<open>Inf True\<close> the positive one) and NaN are
  values of their own. The two zeros are one value: they differ in the source only in
  the sign of the infinity that a division by zero yields, which the managers never
  compare.
\<close>

datatype number = Fin rat | Inf bool | NaN

text \<open>The nearest integer, a tie going to the even one.\<close>

definition round_even :: "rat \<Rightarrow> int" where
  "round_even x =
     (let f = \<lfloor>x\<rfloor>; r = x - of_int f
      in if r < 1 / 2 then f else if 1 / 2 < r then f + 1 else if even f then f else f + 1)"

text \<open>For \<open>0 < x\<close>, the \<open>k\<close> with \<open>2 powi k \<le> x < 2 powi (k + 1)\<close>.\<close>

definition floor_log2 :: "rat \<Rightarrow> int" where
  "floor_log2 x = (if 1 \<le> x then bitlen \<lfloor>x\<rfloor> - 1 else - bitlen (\<lceil>1 / x\<rceil> - 1))"

text \<open>
  Rounding to binary64, to nearest and ties to even: 53 significant bits, the last place
  never below \<open>2 powi (- 1074)\<close> (the subnormal numbers), and an infinity when the rounded
  value reaches \<open>2 powi 1024\<close>, that is, when its \<open>floor_log2\<close> reaches 1024.
\<close>

definition round_double :: "rat \<Rightarrow> number" where
  "round_double x =
     (if x = 0 then Fin 0
      else (let e = max (floor_log2 \<bar>x\<bar> - 52) (- 1074);
                y = of_int (round_even (x / 2 powi e)) * 2 powi e
            in if 1024 \<le> floor_log2 \<bar>y\<bar> then Inf (0 < x) else Fin y))"

text \<open>The number that a decimal literal of the source or of a JSON message denotes.\<close>

definition js :: "rat \<Rightarrow> number" where
  "js x = round_double x"

fun num_neg :: "number \<Rightarrow> number" where
  "num_neg (Fin a) = Fin (- a)"
| "num_neg (Inf s) = Inf (\<not> s)"
| "num_neg NaN = NaN"

fun num_add :: "number \<Rightarrow> number \<Rightarrow> number" where
  "num_add (Fin a) (Fin b) = round_double (a + b)"
| "num_add (Fin a) (Inf t) = Inf t"
| "num_add (Inf s) (Fin b) = Inf s"
| "num_add (Inf s) (Inf t) = (if s = t then Inf s else NaN)"
| "num_add NaN _ = NaN"
| "num_add _ NaN = NaN"

definition num_sub :: "number \<Rightarrow> number \<Rightarrow> number" where
  "num_sub a b = num_add a (num_neg b)"

fun num_mul :: "number \<Rightarrow> number \<Rightarrow> number" where
  "num_mul (Fin a) (Fin b) = round_double (a * b)"
| "num_mul (Fin a) (Inf t) = (if a = 0 then NaN else Inf (t = (0 < a)))"
| "num_mul (Inf s) (Fin b) = (if b = 0 then NaN else Inf (s = (0 < b)))"
| "num_mul (Inf s) (Inf t) = Inf (s = t)"
| "num_mul NaN _ = NaN"
| "num_mul _ NaN = NaN"

fun num_div :: "number \<Rightarrow> number \<Rightarrow> number" where
  "num_div (Fin a) (Fin b) =
     (if b = 0 then (if a = 0 then NaN else Inf (0 < a)) else round_double (a / b))"
| "num_div (Fin a) (Inf t) = Fin 0"
| "num_div (Inf s) (Fin b) = Inf (s = (0 \<le> b))"
| "num_div (Inf s) (Inf t) = NaN"
| "num_div NaN _ = NaN"
| "num_div _ NaN = NaN"

text \<open>\<^verbatim>\<open>a <= b\<close> and \<^verbatim>\<open>a >= b\<close>: false as soon as one side is NaN.\<close>

fun num_le :: "number \<Rightarrow> number \<Rightarrow> bool" where
  "num_le (Fin a) (Fin b) = (a \<le> b)"
| "num_le (Fin a) (Inf t) = t"
| "num_le (Inf s) (Fin b) = (\<not> s)"
| "num_le (Inf s) (Inf t) = (if s then t else True)"
| "num_le NaN _ = False"
| "num_le _ NaN = False"

definition num_ge :: "number \<Rightarrow> number \<Rightarrow> bool" where
  "num_ge a b = num_le b a"

subsection \<open>Watchers and ticks\<close>

datatype side = Yes | No

fun side_str :: "side \<Rightarrow> string" where
  "side_str Yes = ''yes''"
| "side_str No = ''no''"

text \<open>\<^verbatim>\<open>side.toUpperCase()\<close>\<close>

fun side_upper :: "side \<Rightarrow> string" where
  "side_upper Yes = ''YES''"
| "side_upper No = ''NO''"

record StopLossOrder =
  userId :: string
  marketTicker :: string
  side :: side
  basePrice :: number
  dropPercentage :: number
  apiKey :: string
  privateKey :: string

record MarketUpdate =
  market_ticker :: string
  yes_price :: "number option"
  no_price :: "number option"
  timestamp :: "number option"

text \<open>
  What \<^verbatim>\<open>JSON.parse(raw.toString())\<close> yields, as far as the handlers look at it:
  \<open>Unparseable\<close> when parsing throws (or the value has no properties to read),
  otherwise \<^verbatim>\<open>msg.type\<close> and \<^verbatim>\<open>msg.data\<close> (absent: \<open>None\<close>).
\<close>

datatype ws_message = Unparseable | Parsed string "MarketUpdate option"

text \<open>JavaScript's \<^verbatim>\<open>!x\<close> on an optional number: true for \<^verbatim>\<open>undefined\<close>, for 0 and for NaN.\<close>

fun falsy :: "number option \<Rightarrow> bool" where
  "falsy None = True"
| "falsy (Some (Fin p)) = (p = 0)"
| "falsy (Some (Inf s)) = False"
| "falsy (Some NaN) = True"

text \<open>\<^verbatim>\<open>x || 0\<close> on an optional number.\<close>

definition or_zero :: "number option \<Rightarrow> number" where
  "or_zero x = (case x of None \<Rightarrow> Fin 0 | Some n \<Rightarrow> if falsy (Some n) then Fin 0 else n)"

text \<open>\<^verbatim>\<open>side === 'yes' ? data.yes_price : data.no_price\<close>\<close>

definition side_price :: "side \<Rightarrow> MarketUpdate \<Rightarrow> number option" where
  "side_price s data = (if s = Yes then yes_price data else no_price data)"

subsection \<open>Outgoing calls and their payloads\<close>

text \<open>
  A template literal is kept as the list of its pieces: literal text, a number
  interpolated as it is, and a number under \<^verbatim>\<open>toFixed(n)\<close>. The emoji that start the
  titles and field names of the source are left out.
\<close>

datatype part = Lit string | Num number | Fixed nat number

type_synonym template = "part list"

record Embed =
  color :: nat
  title :: string
  description :: template
  embed_fields :: "(string \<times> template \<times> bool) list"
  footer :: template

record OrderPayload =
  op_ticker :: string
  op_side :: side
  op_type :: string
  op_quantity :: number

text \<open>\<^verbatim>\<open>orderResult.order\<close>; a missing or empty \<open>status\<close> is \<open>None\<close>.\<close>

record Order =
  order_id :: string
  quantity :: string
  status :: "string option"

text \<open>
  One entry of \<^verbatim>\<open>positionsData.market_positions\<close>; \<open>position_fp\<close> is what
  \<^verbatim>\<open>parseFloat(position.position_fp)\<close> returns, NaN when the field is missing or does not
  parse.
\<close>

record Position =
  ticker :: string
  position_fp :: number

text \<open>A value caught by \<^verbatim>\<open>catch (err)\<close>: an \<^verbatim>\<open>Error\<close> with its message, or anything else.\<close>

datatype thrown = Error string | NonError

text \<open>\<^verbatim>\<open>err instanceof Error ? err.message : 'Unknown error'\<close>\<close>

fun err_message :: "thrown \<Rightarrow> string" where
  "err_message (Error msg) = msg"
| "err_message NonError = ''Unknown error''"

text \<open>\<^verbatim>\<open>fetchMarketDetails\<close> / \<^verbatim>\<open>fetchMarketInfo\<close>: the market object, empty strings being falsy.\<close>

record MarketInfo =
  mi_title :: string
  mi_subtitle :: string
  mi_event_ticker :: string
  mi_status :: string

text \<open>The calls a manager makes to its collaborators, in the order it makes them.\<close>

datatype call =
    GetPositions string string
  | PostOrder string OrderPayload
  | GetMarket string string
  | UsersFetch string
  | SendEmbed string Embed
  | SendText string template

subsection \<open>The registry map\<close>

text \<open>
  A JavaScript \<^verbatim>\<open>Map<string, WebSocket>\<close> iterates in insertion order, and \<^verbatim>\<open>set\<close> on a
  present key keeps the key's place: an association list. A WebSocket object is named
  by its index in the list of all sockets created so far.
\<close>

type_synonym registry = "(string \<times> nat) list"

definition Map_has :: "registry \<Rightarrow> string \<Rightarrow> bool" where
  "Map_has m k = (map_of m k \<noteq> None)"

definition Map_get :: "registry \<Rightarrow> string \<Rightarrow> nat option" where
  "Map_get m k = map_of m k"

definition Map_set :: "string \<Rightarrow> nat \<Rightarrow> registry \<Rightarrow> registry" where
  "Map_set k v m = AList.update k v m"

definition Map_delete :: "string \<Rightarrow> registry \<Rightarrow> registry" where
  "Map_delete k m = AList.delete k m"

definition Map_keys :: "registry \<Rightarrow> string list" where
  "Map_keys m = map fst m"

text \<open>
  A socket of the \<^verbatim>\<open>ws\<close> library, as far as the managers use it: \<^verbatim>\<open>close()\<close> only starts
  the closing handshake, and the \<^verbatim>\<open>'close'\<close> event reaches the handlers later, from the
  event loop. \<open>close_calls\<close> counts the calls of \<^verbatim>\<open>close()\<close>, \<open>close_emitted\<close> says that
  the \<^verbatim>\<open>'close'\<close> event has been delivered.
\<close>

record WebSocket =
  close_calls :: nat
  close_emitted :: bool

definition ws_close :: "nat \<Rightarrow> ('a WebSocket_scheme) list \<Rightarrow> ('a WebSocket_scheme) list" where
  "ws_close ws socks =
     (if ws < length socks
      then socks[ws := (socks ! ws)\<lparr>close_calls := Suc (close_calls (socks ! ws))\<rparr>]
      else socks)"

definition ws_emit_close :: "nat \<Rightarrow> ('a WebSocket_scheme) list \<Rightarrow> ('a WebSocket_scheme) list" where
  "ws_emit_close ws socks =
     (if ws < length socks then socks[ws := (socks ! ws)\<lparr>close_emitted := True\<rparr>] else socks)"

text \<open>A socket on which \<^verbatim>\<open>close()\<close> was never called and whose \<^verbatim>\<open>'close'\<close> event has not come.\<close>

definition ws_live :: "'a WebSocket_scheme \<Rightarrow> bool" where
  "ws_live w = (close_calls w = 0 \<and> \<not> close_emitted w)"

section \<open>stoploss-manager.ts\<close>

text \<open>
  The closure of one call of \<^verbatim>\<open>startStopLoss\<close>: the socket with the captured
  \<^verbatim>\<open>stopLoss\<close>, \<^verbatim>\<open>stopLossId\<close> and the local \<^verbatim>\<open>hasExecuted\<close>.
\<close>

record sl_socket = WebSocket +
  stopLoss :: StopLossOrder
  stopLossId :: string
  hasExecuted :: bool

text \<open>
  The manager object. \<open>sl_discordClient\<close> says whether \<^verbatim>\<open>this.discordClient\<close> is set.
  \<open>sl_running\<close> holds the message handlers that are suspended at
  \<^verbatim>\<open>await this.executeSellOrder(...)\<close>, each with its socket, \<^verbatim>\<open>currentPrice\<close> and \<^verbatim>\<open>data\<close>;
  \<open>sl_calls\<close> is the trace of calls made so far.
\<close>

record StopLossManager =
  activeStopLosses :: registry
  sl_discordClient :: bool
  sl_sockets :: "sl_socket list"
  sl_running :: "(nat \<times> number \<times> MarketUpdate) list"
  sl_calls :: "call list"

definition sl_init :: "bool \<Rightarrow> StopLossManager" where
  "sl_init client =
     \<lparr>activeStopLosses = [], sl_discordClient = client, sl_sockets = [],
      sl_running = [], sl_calls = []\<rparr>"

definition mk_stopLossId :: "string \<Rightarrow> string \<Rightarrow> string \<Rightarrow> string" where
  "mk_stopLossId u t s = u @ ''-'' @ t @ ''-'' @ s"

text \<open>
  \<^verbatim>\<open>startStopLoss\<close>. \<open>connect_ok\<close> is false when signing the handshake or constructing
  the socket throws inside the \<^verbatim>\<open>try\<close>: the error is logged and nothing is registered.
\<close>

definition startStopLoss :: "bool \<Rightarrow> StopLossOrder \<Rightarrow> StopLossManager \<Rightarrow> StopLossManager" where
  "startStopLoss connect_ok sl m =
     (let sid = mk_stopLossId (userId sl) (marketTicker sl) (side_str (side sl));
          m1 = (if Map_has (activeStopLosses m) sid
                then (case Map_get (activeStopLosses m) sid of
                        Some existingWs \<Rightarrow> m\<lparr>sl_sockets := ws_close existingWs (sl_sockets m)\<rparr>
                      | None \<Rightarrow> m)
                else m)
      in if \<not> connect_ok then m1
         else
           (let ws = length (sl_sockets m1) in
            m1\<lparr>sl_sockets := sl_sockets m1 @
                   [\<lparr>close_calls = 0, close_emitted = False, stopLoss = sl,
                     stopLossId = sid, hasExecuted = False\<rparr>],
                activeStopLosses := Map_set sid ws (activeStopLosses m1)\<rparr>))"

text \<open>
  The synchronous part of the \<^verbatim>\<open>'message'\<close> handler up to the trigger check: the result is
  \<open>Some (currentPrice, data)\<close> exactly when the handler enters the branch of
  \<^verbatim>\<open>if (currentPrice <= triggerPrice && !hasExecuted)\<close>; every \<^verbatim>\<open>return\<close> and every
  exception caught by the handler's \<^verbatim>\<open>try\<close> is \<open>None\<close>.
\<close>

definition sl_trigger :: "StopLossOrder \<Rightarrow> bool \<Rightarrow> ws_message \<Rightarrow> (number \<times> MarketUpdate) option" where
  "sl_trigger sl executed raw =
     (case raw of
        Unparseable \<Rightarrow> None
      | Parsed ty d \<Rightarrow>
          if ty \<noteq> ''market_ticker'' then None
          else (case d of
                  None \<Rightarrow> None
                | Some data \<Rightarrow>
                    if market_ticker data \<noteq> marketTicker sl then None
                    else (case side_price (side sl) data of
                            None \<Rightarrow> None
                          | Some currentPrice \<Rightarrow>
                              if falsy (Some currentPrice) then None
                              else (let triggerPrice =
                                          num_mul (basePrice sl)
                                            (num_sub (Fin 1) (num_div (dropPercentage sl) (Fin 100)))
                                    in if num_le currentPrice triggerPrice \<and> \<not> executed
                                       then Some (currentPrice, data) else None))))"

text \<open>
  The \<^verbatim>\<open>'message'\<close> handler of socket \<open>ws\<close> up to its \<^verbatim>\<open>await\<close>: on a trigger it sets
  \<^verbatim>\<open>hasExecuted\<close> and is suspended in \<^verbatim>\<open>executeSellOrder\<close>.
\<close>

definition sl_on_message :: "nat \<Rightarrow> ws_message \<Rightarrow> StopLossManager \<Rightarrow> StopLossManager" where
  "sl_on_message ws raw m =
     (if ws < length (sl_sockets m)
      then (let s = sl_sockets m ! ws in
            case sl_trigger (stopLoss s) (hasExecuted s) raw of
              None \<Rightarrow> m
            | Some (currentPrice, data) \<Rightarrow>
                m\<lparr>sl_sockets := (sl_sockets m)[ws := s\<lparr>hasExecuted := True\<rparr>],
                  sl_running := sl_running m @ [(ws, currentPrice, data)]\<rparr>)
      else m)"

text \<open>
  What the collaborators answer during one run of \<^verbatim>\<open>executeSellOrder\<close>: the positions
  request throws or returns \<^verbatim>\<open>market_positions\<close> (absent: \<open>None\<close>), the order request
  throws or returns \<^verbatim>\<open>orderResult.order\<close> (absent: \<open>None\<close>), and
  \<^verbatim>\<open>discordClient.users.fetch\<close> finds the user or throws.
\<close>

record sell_env =
  positions_resp :: "thrown + Position list option"
  order_resp :: "thrown + Order option"
  user_found :: bool

text \<open>JavaScript's truthiness of \<^verbatim>\<open>errorMessage: string | null\<close>.\<close>

fun truthy_str :: "string option \<Rightarrow> bool" where
  "truthy_str None = False"
| "truthy_str (Some s) = (s \<noteq> [])"

text \<open>The embed built by \<^verbatim>\<open>sendStopLossDM\<close>.\<close>

definition stopLossEmbed ::
  "StopLossOrder \<Rightarrow> number \<Rightarrow> MarketUpdate \<Rightarrow> Order option \<Rightarrow> string option \<Rightarrow> Embed" where
  "stopLossEmbed sl currentPrice marketData ord errorMessage =
     (let priceChange =
            Fixed 2
              (num_mul (num_div (num_sub currentPrice (basePrice sl)) (basePrice sl)) (Fin 100));
          ttl = (if truthy_str errorMessage then ''Stop Loss Error''
                 else if ord \<noteq> None then ''Position Closed!''
                 else ''Stop Loss Triggered!'');
          col = (if truthy_str errorMessage then 0xff4444
                 else if ord \<noteq> None then 0x00ff00
                 else 0xff6b6b);
          base =
            [(''Market Ticker'', [Lit ''`'', Lit (marketTicker sl), Lit ''`''], True),
             (''Side Held'', [Lit (side_upper (side sl))], True),
             (''Stop Loss %'', [Lit ''`-'', Num (dropPercentage sl), Lit ''%`''], True),
             (''Entry Price'', [Lit ''`$'', Fixed 4 (basePrice sl), Lit ''`''], True),
             (''Trigger Price'',
                [Lit ''`$'',
                 Fixed 4
                   (num_mul (basePrice sl)
                      (num_sub (Fin 1) (num_div (dropPercentage sl) (Fin 100)))),
                 Lit ''`''], True),
             (''Current Price'', [Lit ''`$'', Fixed 4 currentPrice, Lit ''`''], True),
             (''Price Change'', [Lit ''`'', priceChange, Lit ''%` ''], True),
             (''YES Price'', [Lit ''`$'', Fixed 4 (or_zero (yes_price marketData)), Lit ''`''], True),
             (''NO Price'', [Lit ''`$'', Fixed 4 (or_zero (no_price marketData)), Lit ''`''], True)];
          extra =
            (case ord of
               Some order \<Rightarrow>
                 [(''Order Executed'', [Lit ''Order ID: `'', Lit (order_id order), Lit ''`''], False),
                  (''Quantity Sold'', [Lit ''`'', Lit (quantity order), Lit ''` contracts''], True),
                  (''Order Status'',
                     [Lit ''`'', Lit (case status order of None \<Rightarrow> ''PENDING'' | Some st \<Rightarrow> st),
                      Lit ''`''], True)]
             | None \<Rightarrow>
                 (case errorMessage of
                    None \<Rightarrow> []
                  | Some msg \<Rightarrow>
                      if truthy_str errorMessage
                      then [(''Error'', [Lit ''`'', Lit msg, Lit ''`''], False)]
                      else []))
      in \<lparr>color = col, title = ttl,
          description = [Lit ''**'', Lit (marketTicker sl), Lit ''**\<newline>'',
                         Lit (side_upper (side sl)), Lit '' position exited''],
          embed_fields = base @ extra,
          footer = [Lit ''Stop loss triggered and position closed'']\<rparr>)"

text \<open>
  \<^verbatim>\<open>sendStopLossDM\<close>: the calls it makes. Without a Discord client it returns at once; a
  failing \<^verbatim>\<open>users.fetch\<close> is caught and logged, and nothing is sent. Whether \<^verbatim>\<open>user.send\<close>
  itself succeeds changes nothing but the log.
\<close>

definition sendStopLossDM ::
  "bool \<Rightarrow> bool \<Rightarrow> StopLossOrder \<Rightarrow> number \<Rightarrow> MarketUpdate \<Rightarrow> Order option \<Rightarrow> string option
     \<Rightarrow> call list" where
  "sendStopLossDM client found sl currentPrice marketData ord errorMessage =
     (if \<not> client then []
      else if \<not> found then [UsersFetch (userId sl)]
      else [UsersFetch (userId sl),
            SendEmbed (userId sl) (stopLossEmbed sl currentPrice marketData ord errorMessage)])"

text \<open>
  \<^verbatim>\<open>let positionQuantity = 0; ... parseFloat(position.position_fp) || 0\<close>: the size of the
  first position on the ticker, 0 when there is none or when it does not parse.
\<close>

definition positionQuantity :: "Position list option \<Rightarrow> string \<Rightarrow> number" where
  "positionQuantity market_positions t =
     (case market_positions of
        None \<Rightarrow> Fin 0
      | Some ps \<Rightarrow>
          (case find (\<lambda>p. ticker p = t) ps of
             None \<Rightarrow> Fin 0
           | Some position \<Rightarrow> or_zero (Some (position_fp position))))"

text \<open>\<^verbatim>\<open>executeSellOrder\<close>: the calls of one run of the pipeline, given the answers \<open>env\<close>.\<close>

definition executeSellOrder ::
  "bool \<Rightarrow> sell_env \<Rightarrow> StopLossOrder \<Rightarrow> number \<Rightarrow> MarketUpdate \<Rightarrow> call list" where
  "executeSellOrder client env sl currentPrice marketData =
     (if \<not> client then []
      else
        GetPositions ''/trade-api/v2/portfolio/positions?limit=100'' (apiKey sl) #
        (case positions_resp env of
           Inl err \<Rightarrow>
             sendStopLossDM client (user_found env) sl currentPrice marketData None
               (Some (err_message err))
         | Inr market_positions \<Rightarrow>
             (let qty = positionQuantity market_positions (marketTicker sl) in
              if num_le qty (Fin 0)
              then sendStopLossDM client (user_found env) sl currentPrice marketData None
                     (Some ''Position not found'')
              else
                PostOrder ''/trade-api/v2/portfolio/orders''
                  \<lparr>op_ticker = marketTicker sl, op_side = side sl, op_type = ''market'',
                   op_quantity = qty\<rparr> #
                (case order_resp env of
                   Inl err \<Rightarrow>
                     sendStopLossDM client (user_found env) sl currentPrice marketData None
                       (Some (err_message err))
                 | Inr ord \<Rightarrow>
                     sendStopLossDM client (user_found env) sl currentPrice marketData ord None))))"

text \<open>
  The rest of a suspended \<^verbatim>\<open>'message'\<close> handler, the \<open>i\<close>-th of \<open>sl_running\<close>: the pipeline
  runs with the answers \<open>env\<close>, then \<^verbatim>\<open>ws.close()\<close> and
  \<^verbatim>\<open>this.activeStopLosses.delete(stopLossId)\<close>. The pipeline touches nothing of the
  manager but \<^verbatim>\<open>this.discordClient\<close>, which is taken as it is when the handler resumes;
  its calls enter the trace together. Between the two halves of a handler any other
  handler or method may run, as on the event loop.
\<close>

definition sl_resume :: "nat \<Rightarrow> sell_env \<Rightarrow> StopLossManager \<Rightarrow> StopLossManager" where
  "sl_resume i env m =
     (if i < length (sl_running m)
      then (case sl_running m ! i of
              (ws, currentPrice, data) \<Rightarrow>
                if ws < length (sl_sockets m)
                then (let s = sl_sockets m ! ws in
                      m\<lparr>sl_calls := sl_calls m @
                           executeSellOrder (sl_discordClient m) env (stopLoss s) currentPrice data,
                        sl_running := take i (sl_running m) @ drop (Suc i) (sl_running m),
                        sl_sockets := ws_close ws (sl_sockets m),
                        activeStopLosses := Map_delete (stopLossId s) (activeStopLosses m)\<rparr>)
                else m)
      else m)"

text \<open>The \<^verbatim>\<open>'close'\<close> handler of socket \<open>ws\<close>: \<^verbatim>\<open>this.activeStopLosses.delete(stopLossId)\<close>.\<close>

definition sl_on_close :: "nat \<Rightarrow> StopLossManager \<Rightarrow> StopLossManager" where
  "sl_on_close ws m =
     (if ws < length (sl_sockets m)
      then m\<lparr>sl_sockets := ws_emit_close ws (sl_sockets m),
             activeStopLosses := Map_delete (stopLossId (sl_sockets m ! ws)) (activeStopLosses m)\<rparr>
      else m)"

text \<open>\<^verbatim>\<open>stopStopLoss\<close>; the side is any string here.\<close>

definition stopStopLoss ::
  "string \<Rightarrow> string \<Rightarrow> string \<Rightarrow> StopLossManager \<Rightarrow> bool \<times> StopLossManager" where
  "stopStopLoss u t s m =
     (let sid = mk_stopLossId u t s in
      case Map_get (activeStopLosses m) sid of
        Some ws \<Rightarrow>
          (True, m\<lparr>sl_sockets := ws_close ws (sl_sockets m),
                   activeStopLosses := Map_delete sid (activeStopLosses m)\<rparr>)
      | None \<Rightarrow> (False, m))"

text \<open>\<^verbatim>\<open>getActiveStopLosses\<close>: \<^verbatim>\<open>key.startsWith(userId)\<close> is \<open>prefix\<close>.\<close>

definition getActiveStopLosses :: "string \<Rightarrow> StopLossManager \<Rightarrow> string list" where
  "getActiveStopLosses u m = filter (\<lambda>key. prefix u key) (Map_keys (activeStopLosses m))"

text \<open>One turn of the loop of \<^verbatim>\<open>stopAllStopLosses\<close>.\<close>

definition sl_stop_one :: "string \<Rightarrow> StopLossManager \<Rightarrow> StopLossManager" where
  "sl_stop_one sid m =
     (let m1 = (case Map_get (activeStopLosses m) sid of
                  Some ws \<Rightarrow> m\<lparr>sl_sockets := ws_close ws (sl_sockets m)\<rparr>
                | None \<Rightarrow> m)
      in m1\<lparr>activeStopLosses := Map_delete sid (activeStopLosses m1)\<rparr>)"

definition stopAllStopLosses :: "string \<Rightarrow> StopLossManager \<Rightarrow> nat \<times> StopLossManager" where
  "stopAllStopLosses u m =
     (let userStopLosses = getActiveStopLosses u m
      in (length userStopLosses, fold sl_stop_one userStopLosses m))"

section \<open>alert-manager.ts\<close>

record PriceAlert =
  a_userId :: string
  a_marketTicker :: string
  a_side :: side
  a_basePrice :: number
  percentageThreshold :: number
  a_apiKey :: string
  a_privateKey :: string

text \<open>The closure of one call of \<^verbatim>\<open>startAlert\<close>; it has no flag of its own.\<close>

record al_socket = WebSocket +
  alert :: PriceAlert
  alertId :: string

text \<open>
  The manager object; \<open>al_running\<close> holds the message handlers suspended at
  \<^verbatim>\<open>await this.sendAlert(...)\<close>.
\<close>

record AlertManager =
  activeAlerts :: registry
  al_discordClient :: bool
  al_sockets :: "al_socket list"
  al_running :: "(nat \<times> number \<times> MarketUpdate) list"
  al_calls :: "call list"

definition al_init :: "bool \<Rightarrow> AlertManager" where
  "al_init client =
     \<lparr>activeAlerts = [], al_discordClient = client, al_sockets = [],
      al_running = [], al_calls = []\<rparr>"

definition mk_alertId :: "string \<Rightarrow> string \<Rightarrow> string \<Rightarrow> string" where
  "mk_alertId u t s = u @ ''-'' @ t @ ''-'' @ s"

text \<open>\<^verbatim>\<open>startAlert\<close>, with \<open>connect_ok\<close> as in \<open>startStopLoss\<close>.\<close>

definition startAlert :: "bool \<Rightarrow> PriceAlert \<Rightarrow> AlertManager \<Rightarrow> AlertManager" where
  "startAlert connect_ok al m =
     (let aid = mk_alertId (a_userId al) (a_marketTicker al) (side_str (a_side al));
          m1 = (if Map_has (activeAlerts m) aid
                then (case Map_get (activeAlerts m) aid of
                        Some existingWs \<Rightarrow> m\<lparr>al_sockets := ws_close existingWs (al_sockets m)\<rparr>
                      | None \<Rightarrow> m)
                else m)
      in if \<not> connect_ok then m1
         else
           (let ws = length (al_sockets m1) in
            m1\<lparr>al_sockets := al_sockets m1 @
                   [\<lparr>close_calls = 0, close_emitted = False, alert = al, alertId = aid\<rparr>],
                activeAlerts := Map_set aid ws (activeAlerts m1)\<rparr>))"

text \<open>
  The \<^verbatim>\<open>'message'\<close> handler up to the trigger check: \<open>Some (currentPrice, data)\<close> exactly
  when it enters the branch of \<^verbatim>\<open>if (currentPrice >= triggerPrice)\<close>.
\<close>

definition al_trigger :: "PriceAlert \<Rightarrow> ws_message \<Rightarrow> (number \<times> MarketUpdate) option" where
  "al_trigger al raw =
     (case raw of
        Unparseable \<Rightarrow> None
      | Parsed ty d \<Rightarrow>
          if ty \<noteq> ''market_ticker'' then None
          else (case d of
                  None \<Rightarrow> None
                | Some data \<Rightarrow>
                    if market_ticker data \<noteq> a_marketTicker al then None
                    else (case side_price (a_side al) data of
                            None \<Rightarrow> None
                          | Some currentPrice \<Rightarrow>
                              if falsy (Some currentPrice) then None
                              else (let triggerPrice =
                                          num_mul (a_basePrice al)
                                            (num_add (Fin 1)
                                               (num_div (percentageThreshold al) (Fin 100)))
                                    in if num_ge currentPrice triggerPrice
                                       then Some (currentPrice, data) else None))))"

definition al_on_message :: "nat \<Rightarrow> ws_message \<Rightarrow> AlertManager \<Rightarrow> AlertManager" where
  "al_on_message ws raw m =
     (if ws < length (al_sockets m)
      then (case al_trigger (alert (al_sockets m ! ws)) raw of
              None \<Rightarrow> m
            | Some (currentPrice, data) \<Rightarrow>
                m\<lparr>al_running := al_running m @ [(ws, currentPrice, data)]\<rparr>)
      else m)"

text \<open>
  The answers during one run of \<^verbatim>\<open>sendAlert\<close>: \<^verbatim>\<open>fetchMarketDetails\<close> returns the market
  or nothing (it catches its own errors), and \<^verbatim>\<open>users.fetch\<close> finds the user or throws.
\<close>

record alert_env =
  market_resp :: "MarketInfo option"
  a_user_found :: bool

text \<open>\<^verbatim>\<open>marketInfo?.f || dflt\<close>\<close>

definition info_or :: "MarketInfo option \<Rightarrow> (MarketInfo \<Rightarrow> string) \<Rightarrow> string \<Rightarrow> string" where
  "info_or mi f dflt =
     (case mi of None \<Rightarrow> dflt | Some i \<Rightarrow> if f i = [] then dflt else f i)"

text \<open>The bullet character of the footer, U+2022, as its three bytes in UTF-8.\<close>

definition bullet :: string where
  "bullet = [CHR 0xE2, CHR 0x80, CHR 0xA2]"

text \<open>The embed built by \<^verbatim>\<open>sendAlert\<close>.\<close>

definition alertEmbed :: "PriceAlert \<Rightarrow> number \<Rightarrow> MarketUpdate \<Rightarrow> MarketInfo option \<Rightarrow> Embed" where
  "alertEmbed al currentPrice marketData marketInfo =
     (let percentageMove =
            Fixed 2
              (num_mul (num_div (num_sub currentPrice (a_basePrice al)) (a_basePrice al))
                 (Fin 100)) in
      \<lparr>color = 0xff6b6b, title = ''Price Alert Triggered!'',
       description = [Lit ''**'', Lit (a_marketTicker al), Lit ''**\<newline>\<newline>'',
                      Lit (info_or marketInfo mi_title ''Market'')],
       embed_fields =
         [(''Market Ticker'', [Lit ''`'', Lit (a_marketTicker al), Lit ''`''], True),
          (''Event'', [Lit ''`'', Lit (info_or marketInfo mi_event_ticker ''N/A''), Lit ''`''], True),
          (''Side Watched'', [Lit (side_upper (a_side al))], True),
          (''Entry Price'', [Lit ''`$'', Fixed 4 (a_basePrice al), Lit ''`''], True),
          (''Current Price'', [Lit ''`$'', Fixed 4 currentPrice, Lit ''`''], True),
          (''Movement'', [Lit ''`+'', percentageMove, Lit ''%` ''], True),
          (''Question'', [Lit (info_or marketInfo mi_title ''N/A'')], False),
          (''Details'', [Lit (info_or marketInfo mi_subtitle ''No details available'')], False),
          (''Market Status'', [Lit ''`'', Lit (info_or marketInfo mi_status ''UNKNOWN''), Lit ''`''], True),
          (''YES Price'', [Lit ''`$'', Fixed 4 (or_zero (yes_price marketData)), Lit ''`''], True),
          (''NO Price'', [Lit ''`$'', Fixed 4 (or_zero (no_price marketData)), Lit ''`''], True)],
       footer = [Lit ''Alert set at '', Num (percentageThreshold al),
                 Lit (''% threshold '' @ bullet @ '' Use /alerts to manage'')]\<rparr>)"

text \<open>\<^verbatim>\<open>sendAlert\<close>: the calls of one run, given the answers \<open>env\<close>.\<close>

definition sendAlert ::
  "bool \<Rightarrow> alert_env \<Rightarrow> PriceAlert \<Rightarrow> number \<Rightarrow> MarketUpdate \<Rightarrow> call list" where
  "sendAlert client env al currentPrice marketData =
     (if \<not> client then []
      else
        GetMarket (''/trade-api/v2/markets/'' @ a_marketTicker al) (a_apiKey al) #
        UsersFetch (a_userId al) #
        (if \<not> a_user_found env then []
         else [SendEmbed (a_userId al) (alertEmbed al currentPrice marketData (market_resp env))]))"

text \<open>
  The rest of a suspended handler: \<^verbatim>\<open>sendAlert\<close> completes, then \<^verbatim>\<open>ws.close()\<close> and
  \<^verbatim>\<open>this.activeAlerts.delete(alertId)\<close>.
\<close>

definition al_resume :: "nat \<Rightarrow> alert_env \<Rightarrow> AlertManager \<Rightarrow> AlertManager" where
  "al_resume i env m =
     (if i < length (al_running m)
      then (case al_running m ! i of
              (ws, currentPrice, data) \<Rightarrow>
                if ws < length (al_sockets m)
                then (let s = al_sockets m ! ws in
                      m\<lparr>al_calls := al_calls m @
                           sendAlert (al_discordClient m) env (alert s) currentPrice data,
                        al_running := take i (al_running m) @ drop (Suc i) (al_running m),
                        al_sockets := ws_close ws (al_sockets m),
                        activeAlerts := Map_delete (alertId s) (activeAlerts m)\<rparr>)
                else m)
      else m)"

definition al_on_close :: "nat \<Rightarrow> AlertManager \<Rightarrow> AlertManager" where
  "al_on_close ws m =
     (if ws < length (al_sockets m)
      then m\<lparr>al_sockets := ws_emit_close ws (al_sockets m),
             activeAlerts := Map_delete (alertId (al_sockets m ! ws)) (activeAlerts m)\<rparr>
      else m)"

definition stopAlert ::
  "string \<Rightarrow> string \<Rightarrow> string \<Rightarrow> AlertManager \<Rightarrow> bool \<times> AlertManager" where
  "stopAlert u t s m =
     (let aid = mk_alertId u t s in
      case Map_get (activeAlerts m) aid of
        Some ws \<Rightarrow>
          (True, m\<lparr>al_sockets := ws_close ws (al_sockets m),
                   activeAlerts := Map_delete aid (activeAlerts m)\<rparr>)
      | None \<Rightarrow> (False, m))"

definition getActiveAlerts :: "string \<Rightarrow> AlertManager \<Rightarrow> string list" where
  "getActiveAlerts u m = filter (\<lambda>key. prefix u key) (Map_keys (activeAlerts m))"

definition al_stop_one :: "string \<Rightarrow> AlertManager \<Rightarrow> AlertManager" where
  "al_stop_one aid m =
     (let m1 = (case Map_get (activeAlerts m) aid of
                  Some ws \<Rightarrow> m\<lparr>al_sockets := ws_close ws (al_sockets m)\<rparr>
                | None \<Rightarrow> m)
      in m1\<lparr>activeAlerts := Map_delete aid (activeAlerts m1)\<rparr>)"

definition stopAllAlerts :: "string \<Rightarrow> AlertManager \<Rightarrow> nat \<times> AlertManager" where
  "stopAllAlerts u m =
     (let userAlerts = getActiveAlerts u m
      in (length userAlerts, fold al_stop_one userAlerts m))"

section \<open>websocket-alert-manager.ts\<close>

text \<open>Here \<open>threshold\<close> is a fraction: 0.10 stands for 10 percent.\<close>

record PositionAlert =
  discordId :: string
  p_marketTicker :: string
  p_side :: side
  p_basePrice :: number
  threshold :: number
  contractsHeld :: number
  p_apiKey :: string
  p_privateKey :: string

text \<open>The closure of one call of \<^verbatim>\<open>startPositionAlert\<close>, with its local \<^verbatim>\<open>hasTriggered\<close>.\<close>

record pos_socket = WebSocket +
  p_alert :: PositionAlert
  alertKey :: string
  hasTriggered :: bool

text \<open>
  The state of the module: its \<^verbatim>\<open>activeAlerts\<close> map, the sockets, the handlers suspended at
  the first \<^verbatim>\<open>await\<close> of the trigger branch, and the calls made.
\<close>

record PositionAlerts =
  p_activeAlerts :: registry
  p_sockets :: "pos_socket list"
  p_running :: "(nat \<times> number \<times> MarketUpdate) list"
  p_calls :: "call list"

definition p_init :: PositionAlerts where
  "p_init = \<lparr>p_activeAlerts = [], p_sockets = [], p_running = [], p_calls = []\<rparr>"

definition mk_alertKey :: "string \<Rightarrow> string \<Rightarrow> string" where
  "mk_alertKey u t = u @ ''-'' @ t"

text \<open>\<^verbatim>\<open>startPositionAlert\<close>: a key that is present makes it return at once.\<close>

definition startPositionAlert :: "PositionAlert \<Rightarrow> PositionAlerts \<Rightarrow> PositionAlerts" where
  "startPositionAlert al m =
     (let k = mk_alertKey (discordId al) (p_marketTicker al) in
      if Map_has (p_activeAlerts m) k then m
      else
        (let ws = length (p_sockets m) in
         m\<lparr>p_sockets := p_sockets m @
              [\<lparr>close_calls = 0, close_emitted = False, p_alert = al, alertKey = k,
                hasTriggered = False\<rparr>],
           p_activeAlerts := Map_set k ws (p_activeAlerts m)\<rparr>))"

text \<open>
  The \<^verbatim>\<open>'message'\<close> handler up to the trigger check. There is no guard on the price: an
  absent price makes \<^verbatim>\<open>currentPrice.toFixed(4)\<close> throw, which the handler's \<^verbatim>\<open>try\<close> catches.
\<close>

definition p_trigger :: "PositionAlert \<Rightarrow> bool \<Rightarrow> ws_message \<Rightarrow> (number \<times> MarketUpdate) option" where
  "p_trigger al triggered raw =
     (case raw of
        Unparseable \<Rightarrow> None
      | Parsed ty d \<Rightarrow>
          if ty \<noteq> ''market_ticker'' then None
          else (case d of
                  None \<Rightarrow> None
                | Some data \<Rightarrow>
                    if market_ticker data \<noteq> p_marketTicker al then None
                    else (case side_price (p_side al) data of
                            None \<Rightarrow> None
                          | Some currentPrice \<Rightarrow>
                              (let triggerPrice =
                                     num_mul (p_basePrice al) (num_add (Fin 1) (threshold al))
                               in if num_ge currentPrice triggerPrice \<and> \<not> triggered
                                  then Some (currentPrice, data) else None))))"

definition p_on_message :: "nat \<Rightarrow> ws_message \<Rightarrow> PositionAlerts \<Rightarrow> PositionAlerts" where
  "p_on_message ws raw m =
     (if ws < length (p_sockets m)
      then (let s = p_sockets m ! ws in
            case p_trigger (p_alert s) (hasTriggered s) raw of
              None \<Rightarrow> m
            | Some (currentPrice, data) \<Rightarrow>
                m\<lparr>p_sockets := (p_sockets m)[ws := s\<lparr>hasTriggered := True\<rparr>],
                  p_running := p_running m @ [(ws, currentPrice, data)]\<rparr>)
      else m)"

text \<open>
  \<^verbatim>\<open>fetchMarketInfo\<close> fills the defaults in; \<open>None\<close> when the request fails or returns no
  market.
\<close>

definition fetchMarketInfo :: "MarketInfo option \<Rightarrow> MarketInfo option" where
  "fetchMarketInfo market =
     (case market of
        None \<Rightarrow> None
      | Some i \<Rightarrow>
          Some \<lparr>mi_title = (if mi_title i = [] then ''Unknown Market'' else mi_title i),
                mi_subtitle = mi_subtitle i,
                mi_event_ticker = (if mi_event_ticker i = [] then ''N/A'' else mi_event_ticker i),
                mi_status = (if mi_status i = [] then ''UNKNOWN'' else mi_status i)\<rparr>)"

text \<open>The text of the direct message, without its emoji and line-drawing characters.\<close>

definition dmMessage :: "PositionAlert \<Rightarrow> number \<Rightarrow> number \<Rightarrow> MarketInfo option \<Rightarrow> template" where
  "dmMessage al currentPrice noPrice marketInfo =
     [Lit ''**PRICE ALERT TRIGGERED!**\<newline>\<newline>**Market:** '',
      Lit (info_or marketInfo mi_title (p_marketTicker al)),
      Lit ''\<newline>**Ticker:** `'', Lit (p_marketTicker al),
      Lit ''`\<newline>**Event:** `'', Lit (info_or marketInfo mi_event_ticker ''N/A''),
      Lit ''`\<newline>\<newline>**Your Position:**\<newline>Side: **'', Lit (side_upper (p_side al)),
      Lit ''**\<newline>Contracts Held: **'', Num (contractsHeld al),
      Lit ''**\<newline>Entry Price: `$'', Fixed 4 (p_basePrice al),
      Lit ''`\<newline>Alert Threshold: **+'', Fixed 0 (num_mul (threshold al) (Fin 100)),
      Lit ''%**\<newline>\<newline>**Market Update:**\<newline>Current '', Lit (side_upper (p_side al)),
      Lit '' Price: `$'', Fixed 4 currentPrice,
      Lit ''`\<newline>Current NO Price: `$'', Fixed 4 noPrice,
      Lit ''`\<newline>Price Change: **'',
      Fixed 2
        (num_mul (num_div (num_sub currentPrice (p_basePrice al)) (p_basePrice al)) (Fin 100)),
      Lit ''%**\<newline>Market Status: `'', Lit (info_or marketInfo mi_status ''UNKNOWN''),
      Lit ''`\<newline>\<newline>**Action:** Check your positions and consider taking profit!'']"

record pos_env =
  p_market_resp :: "MarketInfo option"
  p_user_found :: bool

text \<open>
  The trigger branch after its first \<^verbatim>\<open>await\<close>: market info, the direct message inside its
  own \<^verbatim>\<open>try\<close> (a missing \<^verbatim>\<open>no_price\<close> throws there and nothing is sent), then
  \<^verbatim>\<open>ws.close()\<close> and \<^verbatim>\<open>activeAlerts.delete(alertKey)\<close>.
\<close>

definition p_resume :: "nat \<Rightarrow> pos_env \<Rightarrow> PositionAlerts \<Rightarrow> PositionAlerts" where
  "p_resume i env m =
     (if i < length (p_running m)
      then (case p_running m ! i of
              (ws, currentPrice, data) \<Rightarrow>
                if ws < length (p_sockets m)
                then (let s = p_sockets m ! ws;
                          al = p_alert s;
                          marketInfo = fetchMarketInfo (p_market_resp env)
                      in
                      m\<lparr>p_calls := p_calls m @
                           GetMarket (''/trade-api/v2/markets/'' @ p_marketTicker al) (p_apiKey al) #
                           UsersFetch (discordId al) #
                           (if \<not> p_user_found env then []
                            else (case no_price data of
                                    None \<Rightarrow> []
                                  | Some noPrice \<Rightarrow>
                                      [SendText (discordId al)
                                         (dmMessage al currentPrice noPrice marketInfo)])),
                        p_running := take i (p_running m) @ drop (Suc i) (p_running m),
                        p_sockets := ws_close ws (p_sockets m),
                        p_activeAlerts := Map_delete (alertKey s) (p_activeAlerts m)\<rparr>)
                else m)
      else m)"

definition p_on_close :: "nat \<Rightarrow> PositionAlerts \<Rightarrow> PositionAlerts" where
  "p_on_close ws m =
     (if ws < length (p_sockets m)
      then m\<lparr>p_sockets := ws_emit_close ws (p_sockets m),
             p_activeAlerts := Map_delete (alertKey (p_sockets m ! ws)) (p_activeAlerts m)\<rparr>
      else m)"

definition stopPositionAlert :: "string \<Rightarrow> string \<Rightarrow> PositionAlerts \<Rightarrow> bool \<times> PositionAlerts" where
  "stopPositionAlert u t m =
     (let k = mk_alertKey u t in
      case Map_get (p_activeAlerts m) k of
        Some ws \<Rightarrow>
          (True, m\<lparr>p_sockets := ws_close ws (p_sockets m),
                   p_activeAlerts := Map_delete k (p_activeAlerts m)\<rparr>)
      | None \<Rightarrow> (False, m))"

text \<open>
  One turn of the loop of \<^verbatim>\<open>stopAllAlertsForUser\<close> over \<^verbatim>\<open>activeAlerts.entries()\<close>: the
  state and the count so far.
\<close>

definition p_stop_entry ::
  "string \<Rightarrow> string \<times> nat \<Rightarrow> PositionAlerts \<times> nat \<Rightarrow> PositionAlerts \<times> nat" where
  "p_stop_entry u e acc =
     (case e of
        (k, ws) \<Rightarrow>
          (case acc of
             (m, count) \<Rightarrow>
               if prefix u k
               then (m\<lparr>p_sockets := ws_close ws (p_sockets m),
                       p_activeAlerts := Map_delete k (p_activeAlerts m)\<rparr>, Suc count)
               else (m, count)))"

definition stopAllAlertsForUser :: "string \<Rightarrow> PositionAlerts \<Rightarrow> nat \<times> PositionAlerts" where
  "stopAllAlertsForUser u m =
     (case fold (p_stop_entry u) (p_activeAlerts m) (m, 0) of (m', count) \<Rightarrow> (count, m'))"

definition p_getActiveAlerts :: "PositionAlerts \<Rightarrow> string list" where
  "p_getActiveAlerts m = Map_keys (p_activeAlerts m)"

section \<open>Sample watchers and ticks\<close>

text \<open>
  The watchers of the \<^verbatim>\<open>/stoploss set\<close> and \<^verbatim>\<open>/alert set\<close> commands, which fix the entry
  price at 0.50, with a threshold of 10 percent, and a tick of the watched market.
\<close>

definition sl50 :: StopLossOrder where
  "sl50 = \<lparr>userId = ''42'', marketTicker = ''KXBTC'', side = Yes, basePrice = Fin (1 / 2),
           dropPercentage = Fin 10, apiKey = ''key'', privateKey = ''pem''\<rparr>"

definition al50 :: PriceAlert where
  "al50 = \<lparr>a_userId = ''42'', a_marketTicker = ''KXBTC'', a_side = Yes,
           a_basePrice = Fin (1 / 2), percentageThreshold = Fin 10, a_apiKey = ''key'',
           a_privateKey = ''pem''\<rparr>"

text \<open>The prices of the sample ticks and thresholds, as the decimal literals denote them.\<close>

definition price_0_1 :: number where
  "price_0_1 = js (1 / 10)"

definition price_0_14 :: number where
  "price_0_14 = js (14 / 100)"

definition price_0_4 :: number where
  "price_0_4 = js (4 / 10)"


definition price_0_45 :: number where
  "price_0_45 = js (45 / 100)"

definition price_0_450001 :: number where
  "price_0_450001 = js (450001 / 1000000)"

definition price_0_549999 :: number where
  "price_0_549999 = js (549999 / 1000000)"

definition price_0_55 :: number where
  "price_0_55 = js (55 / 100)"

definition price_0_56 :: number where
  "price_0_56 = js (56 / 100)"



definition pa50 :: PositionAlert where
  "pa50 = \<lparr>discordId = ''42'', p_marketTicker = ''KXBTC'', p_side = Yes,
           p_basePrice = Fin (1 / 2), threshold = price_0_1, contractsHeld = Fin 5,
           p_apiKey = ''key'', p_privateKey = ''pem''\<rparr>"

definition yes_tick :: "number \<Rightarrow> MarketUpdate" where
  "yes_tick p = \<lparr>market_ticker = ''KXBTC'', yes_price = Some p, no_price = Some (Fin (1 / 2)),
                 timestamp = None\<rparr>"

definition no_tick :: MarketUpdate where
  "no_tick = \<lparr>market_ticker = ''KXBTC'', yes_price = None, no_price = Some (Fin (1 / 2)),
              timestamp = None\<rparr>"

text \<open>
  Watchers whose trigger price, computed in binary64, is not the double of the decimal
  product: a drop of 80 percent from 0.50, a rise of 10 percent from 0.40, a rise of 13
  percent from 0.50, and a rise by the fraction 0.14 from 0.50.
\<close>

definition sl80 :: StopLossOrder where
  "sl80 = sl50\<lparr>dropPercentage := Fin 80\<rparr>"

definition al40 :: PriceAlert where
  "al40 = al50\<lparr>a_basePrice := price_0_4\<rparr>"

definition al13 :: PriceAlert where
  "al13 = al50\<lparr>percentageThreshold := Fin 13\<rparr>"

definition pa14 :: PositionAlert where
  "pa14 = pa50\<lparr>threshold := price_0_14\<rparr>"

text \<open>The managers after one \<^verbatim>\<open>start\<close>, with the Discord client set.\<close>

definition sl_m1 :: StopLossManager where
  "sl_m1 = startStopLoss True sl50 (sl_init True)"

definition al_m1 :: AlertManager where
  "al_m1 = startAlert True al50 (al_init True)"

subsection \<open>Reading a trace of calls\<close>

fun is_order :: "call \<Rightarrow> bool" where
  "is_order (PostOrder _ _) = True"
| "is_order _ = False"

fun is_notification :: "call \<Rightarrow> bool" where
  "is_notification (SendEmbed _ _) = True"
| "is_notification (SendText _ _) = True"
| "is_notification _ = False"

fun is_lookup :: "call \<Rightarrow> bool" where
  "is_lookup (UsersFetch _) = True"
| "is_lookup _ = False"

subsection \<open>Sample answers of the collaborators\<close>

text \<open>A position on another market only; an order that is refused; an order that is filled.\<close>

definition env_no_position :: sell_env where
  "env_no_position =
     \<lparr>positions_resp = Inr (Some [\<lparr>ticker = ''KXETH'', position_fp = Fin 3\<rparr>]),
      order_resp = Inr None, user_found = True\<rparr>"

definition env_order_fails :: sell_env where
  "env_order_fails =
     \<lparr>positions_resp = Inr (Some [\<lparr>ticker = ''KXBTC'', position_fp = Fin 5\<rparr>]),
      order_resp = Inl (Error ''insufficient balance''), user_found = True\<rparr>"

definition env_filled :: sell_env where
  "env_filled =
     \<lparr>positions_resp = Inr (Some [\<lparr>ticker = ''KXBTC'', position_fp = Fin 5\<rparr>]),
      order_resp = Inr (Some \<lparr>order_id = ''O123'', quantity = ''5'', status = Some ''executed''\<rparr>),
      user_found = True\<rparr>"

definition env_alert :: alert_env where
  "env_alert = \<lparr>market_resp = None, a_user_found = True\<rparr>"

subsection \<open>Sample runs\<close>

text \<open>The same watchers for the user \<^verbatim>\<open>1234\<close>, whose id starts with \<^verbatim>\<open>123\<close>.\<close>

definition sl1234 :: StopLossOrder where
  "sl1234 = sl50\<lparr>userId := ''1234''\<rparr>"

definition al1234 :: PriceAlert where
  "al1234 = al50\<lparr>a_userId := ''1234''\<rparr>"

definition pa1234 :: PositionAlert where
  "pa1234 = pa50\<lparr>discordId := ''1234''\<rparr>"

definition sl_m1234 :: StopLossManager where
  "sl_m1234 = startStopLoss True sl1234 (sl_init True)"

definition al_m1234 :: AlertManager where
  "al_m1234 = startAlert True al1234 (al_init True)"

definition p_m1234 :: PositionAlerts where
  "p_m1234 = startPositionAlert pa1234 p_init"

definition p_m1 :: PositionAlerts where
  "p_m1 = startPositionAlert pa50 p_init"

text \<open>The stop-loss watcher of \<open>sl_m1\<close> after a tick at 0.45: suspended in its pipeline.\<close>

definition sl_m2 :: StopLossManager where
  "sl_m2 = sl_on_message 0 (Parsed ''market_ticker'' (Some (yes_tick price_0_45))) sl_m1"

text \<open>
  The alert watcher of \<open>al_m1\<close> receives two ticks, at 0.55 and at 0.56, before the
  handler of the first one resumes; then both handlers resume.
\<close>

definition al_two_ticks :: AlertManager where
  "al_two_ticks =
     al_on_message 0 (Parsed ''market_ticker'' (Some (yes_tick price_0_56)))
       (al_on_message 0 (Parsed ''market_ticker'' (Some (yes_tick price_0_55))) al_m1)"

definition al_two_ticks_done :: AlertManager where
  "al_two_ticks_done = al_resume 0 env_alert (al_resume 0 env_alert al_two_ticks)"

text \<open>
  The same watcher is started a second time, and the \<^verbatim>\<open>'close'\<close> event of the first socket
  arrives after that \<^verbatim>\<open>start\<close> has returned (\<open>sl_superseded\<close>); it is then started a third
  time (\<open>sl_restarted\<close>). A tick at the trigger price reaches the second and the third
  socket (\<open>sl_both_triggered\<close>), and both handlers resume, the order being filled
  (\<open>sl_both_sold\<close>). The same for the alert watcher.
\<close>

definition sl_superseded :: StopLossManager where
  "sl_superseded = sl_on_close 0 (startStopLoss True sl50 sl_m1)"

definition sl_restarted :: StopLossManager where
  "sl_restarted = startStopLoss True sl50 sl_superseded"

definition sl_both_triggered :: StopLossManager where
  "sl_both_triggered =
     sl_on_message 2 (Parsed ''market_ticker'' (Some (yes_tick price_0_45)))
       (sl_on_message 1 (Parsed ''market_ticker'' (Some (yes_tick price_0_45))) sl_restarted)"

definition sl_both_sold :: StopLossManager where
  "sl_both_sold = sl_resume 0 env_filled (sl_resume 0 env_filled sl_both_triggered)"

definition al_superseded :: AlertManager where
  "al_superseded = al_on_close 0 (startAlert True al50 al_m1)"

definition al_restarted :: AlertManager where
  "al_restarted = startAlert True al50 al_superseded"

definition al_both_triggered :: AlertManager where
  "al_both_triggered =
     al_on_message 2 (Parsed ''market_ticker'' (Some (yes_tick price_0_55)))
       (al_on_message 1 (Parsed ''market_ticker'' (Some (yes_tick price_0_55))) al_restarted)"

definition al_both_notified :: AlertManager where
  "al_both_notified = al_resume 0 env_alert (al_resume 0 env_alert al_both_triggered)"

text \<open>The amount of an order call.\<close>

definition order_quantity :: "call \<Rightarrow> number" where
  "order_quantity c =
     (case c of PostOrder path payload \<Rightarrow> op_quantity payload | _ \<Rightarrow> Fin 0)"

subsection \<open>Runs of the stop-loss manager\<close>

text \<open>
  What can happen to the manager: a method is called, a message or the \<^verbatim>\<open>'close'\<close> event
  arrives on a socket, or a suspended handler resumes. \<open>sl_pipeline_runs ws es m\<close> counts
  the times the handler of socket \<open>ws\<close> takes its trigger branch, and so starts
  \<^verbatim>\<open>executeSellOrder\<close>, during the events \<open>es\<close> from the state \<open>m\<close>.
\<close>

datatype sl_event =
    Start bool StopLossOrder
  | Message nat ws_message
  | Resume nat sell_env
  | Close nat
  | Stop string string string
  | StopAll string

fun sl_step :: "sl_event \<Rightarrow> StopLossManager \<Rightarrow> StopLossManager" where
  "sl_step (Start connect_ok sl) m = startStopLoss connect_ok sl m"
| "sl_step (Message ws raw) m = sl_on_message ws raw m"
| "sl_step (Resume i env) m = sl_resume i env m"
| "sl_step (Close ws) m = sl_on_close ws m"
| "sl_step (Stop u t s) m = snd (stopStopLoss u t s m)"
| "sl_step (StopAll u) m = snd (stopAllStopLosses u m)"

fun sl_fires :: "nat \<Rightarrow> sl_event \<Rightarrow> StopLossManager \<Rightarrow> nat" where
  "sl_fires ws (Message w raw) m =
     (if w = ws \<and> ws < length (sl_sockets m)
      then (case sl_trigger (stopLoss (sl_sockets m ! ws)) (hasExecuted (sl_sockets m ! ws)) raw of
              None \<Rightarrow> 0
            | Some _ \<Rightarrow> 1)
      else 0)"
| "sl_fires ws _ m = 0"

fun sl_pipeline_runs :: "nat \<Rightarrow> sl_event list \<Rightarrow> StopLossManager \<Rightarrow> nat" where
  "sl_pipeline_runs ws [] m = 0"
| "sl_pipeline_runs ws (e # es) m = sl_fires ws e m + sl_pipeline_runs ws es (sl_step e m)"

section \<open>Values of the sample numbers\<close>

text \<open>
  The arithmetic is kept folded in the proofs below; the roundings that occur are
  computed once, here.
\<close>

declare num_add.simps [simp del] num_mul.simps [simp del] num_div.simps [simp del]





lemma price_0_45_value: "price_0_45 = Fin (8106479329266893 / 18014398509481984)"
  by code_simp

lemma price_0_450001_value: "price_0_450001 = Fin (4053248671832701 / 9007199254740992)"
  by code_simp

lemma price_0_549999_value: "price_0_549999 = Fin (4953950582908291 / 9007199254740992)"
  by code_simp

lemma price_0_55_value: "price_0_55 = Fin (2476979795053773 / 4503599627370496)"
  by code_simp

lemma price_0_56_value: "price_0_56 = Fin (1261007895663739 / 2251799813685248)"
  by code_simp




text \<open>
  The trigger prices of the sample watchers: \<^verbatim>\<open>0.5 * (1 - 10 / 100)\<close> is the double of
  0.45, but \<^verbatim>\<open>0.5 * (1 - 80 / 100)\<close> is 0.09999999999999998, below the double of 0.1.
\<close>

lemma drop_10_from_0_5:
  "num_mul (Fin (1 / 2)) (num_sub (Fin 1) (num_div (Fin 10) (Fin 100)))
     = Fin (8106479329266893 / 18014398509481984)"
  by code_simp

lemma drop_80_from_0_5:
  "num_mul (Fin (1 / 2)) (num_sub (Fin 1) (num_div (Fin 80) (Fin 100)))
     = Fin (900719925474099 / 9007199254740992)"
  by code_simp

text \<open>
  \<^verbatim>\<open>0.5 * (1 + 10 / 100)\<close> is the double of 0.55, but \<^verbatim>\<open>0.4 * (1 + 10 / 100)\<close> is
  0.44000000000000006, above the double of 0.44; \<^verbatim>\<open>0.5 * (1 + 13 / 100)\<close> is the double
  of 0.565, which lies below 0.565.
\<close>

lemma rise_10_from_0_5:
  "num_mul (Fin (1 / 2)) (num_add (Fin 1) (num_div (Fin 10) (Fin 100)))
     = Fin (2476979795053773 / 4503599627370496)"
  by code_simp

lemma rise_10_from_0_4:
  "num_mul price_0_4 (num_add (Fin 1) (num_div (Fin 10) (Fin 100)))
     = Fin (3963167672086037 / 9007199254740992)"
  by code_simp

lemma rise_13_from_0_5:
  "num_mul (Fin (1 / 2)) (num_add (Fin 1) (num_div (Fin 13) (Fin 100)))
     = Fin (1272266894732165 / 2251799813685248)"
  by code_simp

text \<open>
  \<^verbatim>\<open>0.5 * (1 + 0.1)\<close> is the double of 0.55, but \<^verbatim>\<open>0.5 * (1 + 0.14)\<close> is
  0.5700000000000001, above the double of 0.57.
\<close>

lemma rise_by_0_1_from_0_5:
  "num_mul (Fin (1 / 2)) (num_add (Fin 1) price_0_1)
     = Fin (2476979795053773 / 4503599627370496)"
  by code_simp

lemma rise_by_0_14_from_0_5:
  "num_mul (Fin (1 / 2)) (num_add (Fin 1) price_0_14)
     = Fin (2567051787601183 / 4503599627370496)"
  by code_simp

lemmas trigger_prices = drop_10_from_0_5 drop_80_from_0_5 rise_10_from_0_5 rise_10_from_0_4
  rise_13_from_0_5 rise_by_0_1_from_0_5 rise_by_0_14_from_0_5

section \<open>Evaluating the sample runs\<close>

lemmas sl_defs = sl_init_def startStopLoss_def sl_on_message_def sl_resume_def sl_on_close_def
  stopStopLoss_def getActiveStopLosses_def sl_stop_one_def stopAllStopLosses_def
  mk_stopLossId_def

lemmas al_defs = al_init_def startAlert_def al_on_message_def al_resume_def al_on_close_def
  stopAlert_def getActiveAlerts_def al_stop_one_def stopAllAlerts_def mk_alertId_def

lemmas p_defs = p_init_def startPositionAlert_def p_on_message_def p_resume_def p_on_close_def
  stopPositionAlert_def p_stop_entry_def stopAllAlertsForUser_def mk_alertKey_def
  p_getActiveAlerts_def

lemmas map_defs = Map_has_def Map_get_def Map_set_def Map_delete_def Map_keys_def
  ws_close_def ws_emit_close_def ws_live_def Let_def

lemmas watcher_defs = sl50_def sl80_def sl1234_def al50_def al40_def al13_def al1234_def
  pa50_def pa14_def pa1234_def

lemma sl50_sel:
  "userId sl50 = ''42''" "marketTicker sl50 = ''KXBTC''" "side sl50 = Yes"
  "apiKey sl50 = ''key''" "privateKey sl50 = ''pem''"
  by (simp_all add: sl50_def)

lemma al50_sel:
  "a_userId al50 = ''42''" "a_marketTicker al50 = ''KXBTC''" "a_side al50 = Yes"
  "a_apiKey al50 = ''key''" "a_privateKey al50 = ''pem''"
  by (simp_all add: al50_def)

text \<open>The trigger checks of the sample watchers on the sample ticks.\<close>

lemma sl50_fires_at_0_45:
  "sl_trigger sl50 False (Parsed ''market_ticker'' (Some (yes_tick price_0_45)))
     = Some (price_0_45, yes_tick price_0_45)"
  by (simp add: sl_trigger_def side_price_def yes_tick_def sl50_def drop_10_from_0_5
      price_0_45_value)

lemma sl50_holds_at_0_450001:
  "sl_trigger sl50 False (Parsed ''market_ticker'' (Some (yes_tick price_0_450001))) = None"
  by (simp add: sl_trigger_def side_price_def yes_tick_def sl50_def drop_10_from_0_5
      price_0_450001_value)


lemma al50_fires_at_0_55:
  "al_trigger al50 (Parsed ''market_ticker'' (Some (yes_tick price_0_55)))
     = Some (price_0_55, yes_tick price_0_55)"
  by (simp add: al_trigger_def side_price_def yes_tick_def al50_def rise_10_from_0_5
      price_0_55_value num_ge_def)

lemma al50_fires_at_0_56:
  "al_trigger al50 (Parsed ''market_ticker'' (Some (yes_tick price_0_56)))
     = Some (price_0_56, yes_tick price_0_56)"
  by (simp add: al_trigger_def side_price_def yes_tick_def al50_def rise_10_from_0_5
      price_0_56_value num_ge_def)

lemma al50_holds_at_0_549999:
  "al_trigger al50 (Parsed ''market_ticker'' (Some (yes_tick price_0_549999))) = None"
  by (simp add: al_trigger_def side_price_def yes_tick_def al50_def rise_10_from_0_5
      price_0_549999_value num_ge_def)



lemma pa50_fires_at_0_55:
  "p_trigger pa50 False (Parsed ''market_ticker'' (Some (yes_tick price_0_55)))
     = Some (price_0_55, yes_tick price_0_55)"
  by (simp add: p_trigger_def side_price_def yes_tick_def pa50_def rise_by_0_1_from_0_5
      price_0_55_value num_ge_def)

lemma pa50_holds_at_0_549999:
  "p_trigger pa50 False (Parsed ''market_ticker'' (Some (yes_tick price_0_549999))) = None"
  by (simp add: p_trigger_def side_price_def yes_tick_def pa50_def rise_by_0_1_from_0_5
      price_0_549999_value num_ge_def)


lemmas sample_triggers = sl50_fires_at_0_45 al50_fires_at_0_55 al50_fires_at_0_56

lemma sl_m1_eq:
  "sl_m1 = \<lparr>activeStopLosses = [(''42-KXBTC-yes'', 0)], sl_discordClient = True,
            sl_sockets = [\<lparr>close_calls = 0, close_emitted = False, stopLoss = sl50,
                           stopLossId = ''42-KXBTC-yes'', hasExecuted = False\<rparr>],
            sl_running = [], sl_calls = []\<rparr>"
  by (simp add: sl_m1_def sl_defs map_defs sl50_def)

lemma al_m1_eq:
  "al_m1 = \<lparr>activeAlerts = [(''42-KXBTC-yes'', 0)], al_discordClient = True,
            al_sockets = [\<lparr>close_calls = 0, close_emitted = False, alert = al50,
                           alertId = ''42-KXBTC-yes''\<rparr>],
            al_running = [], al_calls = []\<rparr>"
  by (simp add: al_m1_def al_defs map_defs al50_def)

lemma p_m1_eq:
  "p_m1 = \<lparr>p_activeAlerts = [(''42-KXBTC'', 0)],
           p_sockets = [\<lparr>close_calls = 0, close_emitted = False, p_alert = pa50,
                          alertKey = ''42-KXBTC'', hasTriggered = False\<rparr>],
           p_running = [], p_calls = []\<rparr>"
  by (simp add: p_m1_def p_defs map_defs pa50_def)

lemma sl_m2_eq:
  "sl_m2 = \<lparr>activeStopLosses = [(''42-KXBTC-yes'', 0)], sl_discordClient = True,
            sl_sockets = [\<lparr>close_calls = 0, close_emitted = False, stopLoss = sl50,
                           stopLossId = ''42-KXBTC-yes'', hasExecuted = True\<rparr>],
            sl_running = [(0, price_0_45, yes_tick price_0_45)], sl_calls = []\<rparr>"
  by (simp add: sl_m2_def sl_m1_eq sl_on_message_def sl50_fires_at_0_45)

text \<open>The state after a second \<^verbatim>\<open>start\<close> and the \<^verbatim>\<open>'close'\<close> event of the first socket.\<close>

lemma sl_superseded_eq:
  "sl_superseded =
     \<lparr>activeStopLosses = [], sl_discordClient = True,
      sl_sockets = [\<lparr>close_calls = 1, close_emitted = True, stopLoss = sl50,
                     stopLossId = ''42-KXBTC-yes'', hasExecuted = False\<rparr>,
                    \<lparr>close_calls = 0, close_emitted = False, stopLoss = sl50,
                     stopLossId = ''42-KXBTC-yes'', hasExecuted = False\<rparr>],
      sl_running = [], sl_calls = []\<rparr>"
  by (simp add: sl_superseded_def sl_m1_eq sl_defs map_defs sl50_sel)

lemma al_superseded_eq:
  "al_superseded =
     \<lparr>activeAlerts = [], al_discordClient = True,
      al_sockets = [\<lparr>close_calls = 1, close_emitted = True, alert = al50,
                     alertId = ''42-KXBTC-yes''\<rparr>,
                    \<lparr>close_calls = 0, close_emitted = False, alert = al50,
                     alertId = ''42-KXBTC-yes''\<rparr>],
      al_running = [], al_calls = []\<rparr>"
  by (simp add: al_superseded_def al_m1_eq al_defs map_defs al50_sel)

section \<open>The trigger checks\<close>




text \<open>Between finite numbers the comparisons are those of their exact values.\<close>

lemma num_le_Fin: "num_le (Fin a) (Fin b) \<longleftrightarrow> a \<le> b"
  by simp

lemma num_ge_Fin: "num_ge (Fin a) (Fin b) \<longleftrightarrow> b \<le> a"
  by (simp add: num_ge_def)







text \<open>
  C5. A tick whose watched-side price is absent or zero is ignored by the stop-loss
  watcher and by the alert watcher of \<^verbatim>\<open>AlertManager\<close>: the trigger branch is not taken and
  the handler leaves the manager as it was, so nothing is fetched, ordered or sent.
\<close>

theorem falsy_price_ignored:
  assumes "falsy (side_price (side (stopLoss (sl_sockets m ! ws))) data)"
    and "falsy (side_price (a_side (alert (al_sockets am ! ws'))) data')"
  shows "sl_trigger (stopLoss (sl_sockets m ! ws)) executed (Parsed ty (Some data)) = None
       \<and> sl_on_message ws (Parsed ty (Some data)) m = m
       \<and> al_trigger (alert (al_sockets am ! ws')) (Parsed ty' (Some data')) = None
       \<and> al_on_message ws' (Parsed ty' (Some data')) am = am"
proof -
  have a: "sl_trigger (stopLoss (sl_sockets m ! ws)) ex (Parsed ty (Some data)) = None" for ex
    using assms(1) by (auto simp add: sl_trigger_def split: option.splits)
  have b: "al_trigger (alert (al_sockets am ! ws')) (Parsed ty' (Some data')) = None"
    using assms(2) by (auto simp add: al_trigger_def split: option.splits)
  show ?thesis
    using a b by (simp add: sl_on_message_def al_on_message_def)
qed

text \<open>A tick without a YES price on a stop-loss watcher, a tick with YES price 0 on an alert.\<close>

theorem falsy_price_ignored_witness:
  "falsy (side_price (side (stopLoss (sl_sockets sl_m1 ! 0))) no_tick)
   \<and> falsy (side_price (a_side (alert (al_sockets al_m1 ! 0))) (yes_tick (Fin 0)))
   \<and> sl_on_message 0 (Parsed ''market_ticker'' (Some no_tick)) sl_m1 = sl_m1
   \<and> al_on_message 0 (Parsed ''market_ticker'' (Some (yes_tick (Fin 0)))) al_m1 = al_m1"
proof -
  have h1: "falsy (side_price (side (stopLoss (sl_sockets sl_m1 ! 0))) no_tick)"
    by (simp add: sl_m1_eq sl50_def no_tick_def side_price_def)
  have h2: "falsy (side_price (a_side (alert (al_sockets al_m1 ! 0))) (yes_tick (Fin 0)))"
    by (simp add: al_m1_eq al50_def yes_tick_def side_price_def)
  show ?thesis
    using falsy_price_ignored [OF h1 h2, of False "''market_ticker''" "''market_ticker''"] h1 h2
    by simp
qed

text \<open>
  The handler of \<^verbatim>\<open>startPositionAlert\<close> has no such guard: an absent price ends it by an
  exception, which its \<^verbatim>\<open>try\<close> catches; a zero price is compared like any other.
\<close>

lemma p_trigger_absent_price:
  "side_price (p_side al) data = None \<Longrightarrow> p_trigger al triggered (Parsed ty (Some data)) = None"
  by (simp add: p_trigger_def)

section \<open>The registry map\<close>

lemma Map_get_delete_same: "Map_get (Map_delete k m) k = None"
  by (simp add: Map_get_def Map_delete_def delete_conv')

lemma Map_get_set_same: "Map_get (Map_set k v m) k = Some v"
  by (simp add: Map_get_def Map_set_def update_conv')

lemma Map_keys_delete: "k \<notin> set (Map_keys (Map_delete k m))"
  by (simp add: Map_keys_def Map_delete_def delete_keys)

lemma Map_keys_distinct_delete: "distinct (Map_keys m) \<Longrightarrow> distinct (Map_keys (Map_delete k m))"
  by (simp add: Map_keys_def Map_delete_def distinct_delete)

lemma Map_keys_distinct_set: "distinct (Map_keys m) \<Longrightarrow> distinct (Map_keys (Map_set k v m))"
  by (simp add: Map_keys_def Map_set_def distinct_update)

lemma Map_keys_set_present:
  "Map_get r k = Some v \<Longrightarrow> Map_keys (Map_set k v' r) = Map_keys r"
  by (auto simp add: Map_get_def Map_keys_def Map_set_def update_keys dest: map_of_SomeD
      intro: rev_image_eqI)

text \<open>No operation puts a key into a registry twice.\<close>

lemma startStopLoss_keys_distinct:
  "distinct (Map_keys (activeStopLosses m))
     \<Longrightarrow> distinct (Map_keys (activeStopLosses (startStopLoss c sl m)))"
  by (simp add: startStopLoss_def Let_def Map_keys_distinct_set split: option.splits)

lemma startAlert_keys_distinct:
  "distinct (Map_keys (activeAlerts m))
     \<Longrightarrow> distinct (Map_keys (activeAlerts (startAlert c al m)))"
  by (simp add: startAlert_def Let_def Map_keys_distinct_set split: option.splits)

lemma startPositionAlert_keys_distinct:
  "distinct (Map_keys (p_activeAlerts m))
     \<Longrightarrow> distinct (Map_keys (p_activeAlerts (startPositionAlert al m)))"
  by (simp add: startPositionAlert_def Let_def Map_keys_distinct_set)

section \<open>The execution pipeline\<close>

lemma or_zero_le_zero: "num_le x (Fin 0) \<Longrightarrow> num_le (or_zero (Some x)) (Fin 0)"
  by (cases x) (simp_all add: or_zero_def)

lemma positionQuantity_absent:
  "t \<notin> ticker ` set ps \<Longrightarrow> positionQuantity (Some ps) t = Fin 0"
proof -
  assume "t \<notin> ticker ` set ps"
  then have "find (\<lambda>p. ticker p = t) ps = None"
    by (auto simp add: find_None_iff)
  then show ?thesis by (simp add: positionQuantity_def)
qed

lemma positionQuantity_found:
  "find (\<lambda>p. ticker p = t) ps = Some pos
     \<Longrightarrow> positionQuantity (Some ps) t = or_zero (Some (position_fp pos))"
  by (simp add: positionQuantity_def)

lemma executeSellOrder_no_position:
  assumes "positions_resp env = Inr mp"
    and "num_le (positionQuantity mp (marketTicker sl)) (Fin 0)"
  shows "executeSellOrder True env sl currentPrice data =
           GetPositions ''/trade-api/v2/portfolio/positions?limit=100'' (apiKey sl) #
           sendStopLossDM True (user_found env) sl currentPrice data None
             (Some ''Position not found'')"
  using assms by (simp add: executeSellOrder_def)

lemma executeSellOrder_fetch_failed:
  assumes "positions_resp env = Inl err"
  shows "executeSellOrder True env sl currentPrice data =
           GetPositions ''/trade-api/v2/portfolio/positions?limit=100'' (apiKey sl) #
           sendStopLossDM True (user_found env) sl currentPrice data None
             (Some (err_message err))"
  using assms by (simp add: executeSellOrder_def)

lemma executeSellOrder_order_failed:
  assumes "positions_resp env = Inr mp"
    and "\<not> num_le (positionQuantity mp (marketTicker sl)) (Fin 0)"
    and "order_resp env = Inl err"
  shows "executeSellOrder True env sl currentPrice data =
           GetPositions ''/trade-api/v2/portfolio/positions?limit=100'' (apiKey sl) #
           PostOrder ''/trade-api/v2/portfolio/orders''
             \<lparr>op_ticker = marketTicker sl, op_side = side sl, op_type = ''market'',
              op_quantity = positionQuantity mp (marketTicker sl)\<rparr> #
           sendStopLossDM True (user_found env) sl currentPrice data None
             (Some (err_message err))"
  using assms by (simp add: executeSellOrder_def)

lemma executeSellOrder_filled:
  assumes "positions_resp env = Inr mp"
    and "\<not> num_le (positionQuantity mp (marketTicker sl)) (Fin 0)"
    and "order_resp env = Inr ord"
  shows "executeSellOrder True env sl currentPrice data =
           GetPositions ''/trade-api/v2/portfolio/positions?limit=100'' (apiKey sl) #
           PostOrder ''/trade-api/v2/portfolio/orders''
             \<lparr>op_ticker = marketTicker sl, op_side = side sl, op_type = ''market'',
              op_quantity = positionQuantity mp (marketTicker sl)\<rparr> #
           sendStopLossDM True (user_found env) sl currentPrice data ord None"
  using assms by (simp add: executeSellOrder_def)

lemma sendStopLossDM_calls:
  "sendStopLossDM True found sl currentPrice data ord msg =
     UsersFetch (userId sl) #
     (if found then [SendEmbed (userId sl) (stopLossEmbed sl currentPrice data ord msg)] else [])"
  by (simp add: sendStopLossDM_def)

lemma stopLossEmbed_error_field:
  "msg \<noteq> [] \<Longrightarrow>
     (''Error'', [Lit ''`'', Lit msg, Lit ''`''], False)
       \<in> set (embed_fields (stopLossEmbed sl currentPrice data None (Some msg)))"
  by (simp add: stopLossEmbed_def)

lemma stopLossEmbed_error_title:
  "msg \<noteq> [] \<Longrightarrow> title (stopLossEmbed sl currentPrice data None (Some msg)) = ''Stop Loss Error''"
  by (simp add: stopLossEmbed_def)

text \<open>There is exactly one notifier run at the end of every pipeline run with a client.\<close>

lemma executeSellOrder_shape:
  "\<exists>pre ord msg.
     executeSellOrder True env sl currentPrice data =
       pre @ sendStopLossDM True (user_found env) sl currentPrice data ord msg
     \<and> filter is_lookup pre = [] \<and> filter is_notification pre = []"
proof (cases "positions_resp env")
  case (Inl err)
  show ?thesis
    apply (rule exI [of _ "[GetPositions ''/trade-api/v2/portfolio/positions?limit=100'' (apiKey sl)]"])
    apply (rule exI [of _ None], rule exI [of _ "Some (err_message err)"])
    using Inl by (simp add: executeSellOrder_def)
next
  case (Inr mp)
  show ?thesis
  proof (cases "num_le (positionQuantity mp (marketTicker sl)) (Fin 0)")
    case True
    show ?thesis
      apply (rule exI [of _ "[GetPositions ''/trade-api/v2/portfolio/positions?limit=100'' (apiKey sl)]"])
      apply (rule exI [of _ None], rule exI [of _ "Some ''Position not found''"])
      using Inr True by (simp add: executeSellOrder_def)
  next
    case False
    show ?thesis
    proof (cases "order_resp env")
      case (Inl err)
      show ?thesis
        apply (rule exI [of _ "[GetPositions ''/trade-api/v2/portfolio/positions?limit=100'' (apiKey sl),
           PostOrder ''/trade-api/v2/portfolio/orders''
             \<lparr>op_ticker = marketTicker sl, op_side = side sl, op_type = ''market'',
              op_quantity = positionQuantity mp (marketTicker sl)\<rparr>]"])
        apply (rule exI [of _ None], rule exI [of _ "Some (err_message err)"])
        using \<open>positions_resp env = Inr mp\<close> False Inl by (simp add: executeSellOrder_def)
    next
      case (Inr ord)
      show ?thesis
        apply (rule exI [of _ "[GetPositions ''/trade-api/v2/portfolio/positions?limit=100'' (apiKey sl),
           PostOrder ''/trade-api/v2/portfolio/orders''
             \<lparr>op_ticker = marketTicker sl, op_side = side sl, op_type = ''market'',
              op_quantity = positionQuantity mp (marketTicker sl)\<rparr>]"])
        apply (rule exI [of _ ord], rule exI [of _ None])
        using \<open>positions_resp env = Inr mp\<close> False Inr by (simp add: executeSellOrder_def)
    qed
  qed
qed

lemma executeSellOrder_counts:
  "length (filter is_lookup (executeSellOrder True env sl currentPrice data)) = 1"
  "length (filter is_notification (executeSellOrder True env sl currentPrice data)) =
     (if user_found env then 1 else 0)"
proof -
  obtain pre ord msg where e:
    "executeSellOrder True env sl currentPrice data =
       pre @ sendStopLossDM True (user_found env) sl currentPrice data ord msg"
    "filter is_lookup pre = []" "filter is_notification pre = []"
    using executeSellOrder_shape by blast
  show "length (filter is_lookup (executeSellOrder True env sl currentPrice data)) = 1"
    using e by (simp add: sendStopLossDM_calls)
  show "length (filter is_notification (executeSellOrder True env sl currentPrice data)) =
     (if user_found env then 1 else 0)"
    using e by (simp add: sendStopLossDM_calls)
qed

text \<open>
  C6. When the positions request returns and holds no entry for the watcher's ticker, or
  its first entry for the ticker has a size of 0 or less, the pipeline (which runs only
  with the Discord client set) calls the notifier once with the message
  \<^verbatim>\<open>Position not found\<close> and stops: the user is looked up, the embed with the title
  \<^verbatim>\<open>Stop Loss Error\<close> and that text in its \<^verbatim>\<open>Error\<close> field is sent when the lookup
  succeeds, and no order is submitted.
\<close>

theorem no_position_notifies_without_order:
  assumes "positions_resp env = Inr mp"
    and "ps = (case mp of None \<Rightarrow> [] | Some l \<Rightarrow> l)"
    and "marketTicker sl \<notin> ticker ` set ps
         \<or> (\<exists>pos. find (\<lambda>p. ticker p = marketTicker sl) ps = Some pos
                \<and> num_le (position_fp pos) (Fin 0))"
  shows "executeSellOrder True env sl currentPrice data =
           [GetPositions ''/trade-api/v2/portfolio/positions?limit=100'' (apiKey sl),
            UsersFetch (userId sl)] @
           (if user_found env
            then [SendEmbed (userId sl)
                    (stopLossEmbed sl currentPrice data None (Some ''Position not found''))]
            else [])
       \<and> title (stopLossEmbed sl currentPrice data None (Some ''Position not found''))
            = ''Stop Loss Error''
       \<and> (''Error'', [Lit ''`'', Lit ''Position not found'', Lit ''`''], False)
            \<in> set (embed_fields
                 (stopLossEmbed sl currentPrice data None (Some ''Position not found'')))
       \<and> filter is_order (executeSellOrder True env sl currentPrice data) = []"
proof -
  have q: "num_le (positionQuantity mp (marketTicker sl)) (Fin 0)"
  proof (cases mp)
    case None
    then show ?thesis by (simp add: positionQuantity_def)
  next
    case (Some l)
    then have "ps = l" using assms(2) by simp
    then show ?thesis
      using assms(3) Some positionQuantity_absent [of "marketTicker sl" l]
        positionQuantity_found [of "marketTicker sl" l] or_zero_le_zero
      by auto
  qed
  have e: "executeSellOrder True env sl currentPrice data =
           GetPositions ''/trade-api/v2/portfolio/positions?limit=100'' (apiKey sl) #
           sendStopLossDM True (user_found env) sl currentPrice data None
             (Some ''Position not found'')"
    using executeSellOrder_no_position [OF assms(1) q] .
  show ?thesis
    unfolding e
    by (simp add: sendStopLossDM_calls stopLossEmbed_error_field stopLossEmbed_error_title)
qed

theorem no_position_notifies_without_order_witness:
  "positions_resp env_no_position = Inr (Some [\<lparr>ticker = ''KXETH'', position_fp = Fin 3\<rparr>])
   \<and> marketTicker sl50 \<notin> ticker ` set [\<lparr>ticker = ''KXETH'', position_fp = Fin 3\<rparr>]
   \<and> executeSellOrder True env_no_position sl50 price_0_45 (yes_tick price_0_45) =
       [GetPositions ''/trade-api/v2/portfolio/positions?limit=100'' ''key'', UsersFetch ''42'',
        SendEmbed ''42''
          (stopLossEmbed sl50 price_0_45 (yes_tick price_0_45) None (Some ''Position not found''))]"
proof -
  have h1: "positions_resp env_no_position =
              Inr (Some [\<lparr>ticker = ''KXETH'', position_fp = Fin 3\<rparr>])"
    by (simp add: env_no_position_def)
  have h2: "[\<lparr>ticker = ''KXETH'', position_fp = Fin 3\<rparr>] =
              (case Some [\<lparr>ticker = ''KXETH'', position_fp = Fin 3\<rparr>] of
                 None \<Rightarrow> [] | Some l \<Rightarrow> l)"
    by simp
  have h3: "marketTicker sl50 \<notin> ticker ` set [\<lparr>ticker = ''KXETH'', position_fp = Fin 3\<rparr>]"
    by (simp add: sl50_def)
  have u: "user_found env_no_position" "apiKey sl50 = ''key''" "userId sl50 = ''42''"
    by (simp_all add: env_no_position_def sl50_def)
  show ?thesis
    using no_position_notifies_without_order [OF h1 h2 disjI1 [OF h3], of "price_0_45" "yes_tick price_0_45"]
      h1 h3 u
    by simp
qed

text \<open>
  C7, as amended. A suspended stop-loss handler that resumes deletes its key from the
  registry and calls \<^verbatim>\<open>close()\<close> on its socket, whatever the pipeline did. With the
  Discord client set, the pipeline's calls end with exactly one run of the notifier: one
  lookup of the owning user, and one message to that user when the lookup succeeds;
  when the order request throws an error with a nonempty message, the message sent
  carries it in its \<^verbatim>\<open>Error\<close> field. Without a client the pipeline makes no call at all.
\<close>

theorem pipeline_run_notifies_and_removes:
  assumes "i < length (sl_running m)"
    and "sl_running m ! i = (ws, currentPrice, data)"
    and "ws < length (sl_sockets m)"
    and "sl = stopLoss (sl_sockets m ! ws)"
    and "m' = sl_resume i env m"
  shows "Map_get (activeStopLosses m') (stopLossId (sl_sockets m ! ws)) = None
       \<and> close_calls (sl_sockets m' ! ws) = Suc (close_calls (sl_sockets m ! ws))
       \<and> (if sl_discordClient m
           then sl_calls m' = sl_calls m @ executeSellOrder True env sl currentPrice data
              \<and> length (filter is_lookup (executeSellOrder True env sl currentPrice data)) = 1
              \<and> (\<exists>e. filter is_notification (executeSellOrder True env sl currentPrice data) =
                       (if user_found env then [SendEmbed (userId sl) e] else []))
              \<and> (\<forall>mp err. positions_resp env = Inr mp
                     \<and> \<not> num_le (positionQuantity mp (marketTicker sl)) (Fin 0)
                     \<and> order_resp env = Inl err \<and> err_message err \<noteq> [] \<and> user_found env
                   \<longrightarrow> (\<exists>e. SendEmbed (userId sl) e
                               \<in> set (executeSellOrder True env sl currentPrice data)
                          \<and> (''Error'', [Lit ''`'', Lit (err_message err), Lit ''`''], False)
                               \<in> set (embed_fields e)))
           else sl_calls m' = sl_calls m)"
proof -
  have m': "m' = m\<lparr>sl_calls := sl_calls m @
                      executeSellOrder (sl_discordClient m) env sl currentPrice data,
                    sl_running := take i (sl_running m) @ drop (Suc i) (sl_running m),
                    sl_sockets := ws_close ws (sl_sockets m),
                    activeStopLosses :=
                      Map_delete (stopLossId (sl_sockets m ! ws)) (activeStopLosses m)\<rparr>"
    using assms by (simp add: sl_resume_def Let_def)
  have a: "Map_get (activeStopLosses m') (stopLossId (sl_sockets m ! ws)) = None"
    by (simp add: m' Map_get_delete_same)
  have b: "close_calls (sl_sockets m' ! ws) = Suc (close_calls (sl_sockets m ! ws))"
    using assms(3) by (simp add: m' ws_close_def)
  have c: "\<not> sl_discordClient m \<Longrightarrow> sl_calls m' = sl_calls m"
    by (simp add: m' executeSellOrder_def)
  have d: "sl_discordClient m \<Longrightarrow>
             sl_calls m' = sl_calls m @ executeSellOrder True env sl currentPrice data"
    by (simp add: m')
  obtain pre ord msg where e:
    "executeSellOrder True env sl currentPrice data =
       pre @ sendStopLossDM True (user_found env) sl currentPrice data ord msg"
    "filter is_lookup pre = []" "filter is_notification pre = []"
    using executeSellOrder_shape by blast
  have f: "\<exists>e. filter is_notification (executeSellOrder True env sl currentPrice data) =
                 (if user_found env then [SendEmbed (userId sl) e] else [])"
    using e by (simp add: sendStopLossDM_calls)
  have g: "\<exists>e. SendEmbed (userId sl) e \<in> set (executeSellOrder True env sl currentPrice data)
              \<and> (''Error'', [Lit ''`'', Lit (err_message err), Lit ''`''], False)
                   \<in> set (embed_fields e)"
    if "positions_resp env = Inr mp"
      "\<not> num_le (positionQuantity mp (marketTicker sl)) (Fin 0)"
      "order_resp env = Inl err" "err_message err \<noteq> []" "user_found env" for mp err
    using executeSellOrder_order_failed [OF that(1,2,3), of currentPrice data] that(4,5)
    by (auto simp add: sendStopLossDM_calls stopLossEmbed_error_field)
  show ?thesis
    using a b c d f g executeSellOrder_counts(1) [of env sl currentPrice data]
    by (simp del: not_None_eq)
qed

text \<open>The triggered watcher of \<open>sl_m2\<close>, whose order is refused.\<close>

theorem pipeline_run_notifies_and_removes_witness:
  "sl_running sl_m2 ! 0 = (0, price_0_45, yes_tick price_0_45)
   \<and> sl_discordClient sl_m2
   \<and> positions_resp env_order_fails = Inr (Some [\<lparr>ticker = ''KXBTC'', position_fp = Fin 5\<rparr>])
   \<and> order_resp env_order_fails = Inl (Error ''insufficient balance'')
   \<and> Map_get (activeStopLosses (sl_resume 0 env_order_fails sl_m2)) ''42-KXBTC-yes'' = None
   \<and> length (filter is_notification (sl_calls (sl_resume 0 env_order_fails sl_m2))) = 1
   \<and> (\<exists>e. SendEmbed ''42'' e \<in> set (sl_calls (sl_resume 0 env_order_fails sl_m2))
          \<and> (''Error'', [Lit ''`'', Lit ''insufficient balance'', Lit ''`''], False)
               \<in> set (embed_fields e))"
proof -
  have h1: "0 < length (sl_running sl_m2)" by (simp add: sl_m2_eq)
  have h2: "sl_running sl_m2 ! 0 = (0, price_0_45, yes_tick price_0_45)" by (simp add: sl_m2_eq)
  have h3: "0 < length (sl_sockets sl_m2)" by (simp add: sl_m2_eq)
  have h4: "sl50 = stopLoss (sl_sockets sl_m2 ! 0)" by (simp add: sl_m2_eq)
  have c: "sl_discordClient sl_m2" "sl_calls sl_m2 = []"
    "stopLossId (sl_sockets sl_m2 ! 0) = ''42-KXBTC-yes''"
    by (simp_all add: sl_m2_eq)
  have e: "positions_resp env_order_fails =
             Inr (Some [\<lparr>ticker = ''KXBTC'', position_fp = Fin 5\<rparr>])"
    "order_resp env_order_fails = Inl (Error ''insufficient balance'')"
    "user_found env_order_fails"
    by (simp_all add: env_order_fails_def)
  have q: "\<not> num_le (positionQuantity (Some [\<lparr>ticker = ''KXBTC'', position_fp = Fin 5\<rparr>])
                       (marketTicker sl50)) (Fin 0)"
    by (simp add: positionQuantity_def or_zero_def sl50_def)
  have u: "userId sl50 = ''42''" by (simp add: sl50_def)
  note w = pipeline_run_notifies_and_removes [OF h1 h2 h3 h4 refl, of env_order_fails]
  have w1: "Map_get (activeStopLosses (sl_resume 0 env_order_fails sl_m2)) ''42-KXBTC-yes'' = None"
    using w c by simp
  have w2: "sl_calls (sl_resume 0 env_order_fails sl_m2) =
              executeSellOrder True env_order_fails sl50 price_0_45 (yes_tick price_0_45)"
    using w c by simp
  have w3: "length (filter is_notification
              (executeSellOrder True env_order_fails sl50 price_0_45 (yes_tick price_0_45))) = 1"
    using w c e(3) by auto
  have w4: "\<exists>e. SendEmbed ''42'' e
                \<in> set (executeSellOrder True env_order_fails sl50 price_0_45 (yes_tick price_0_45))
              \<and> (''Error'', [Lit ''`'', Lit ''insufficient balance'', Lit ''`''], False)
                   \<in> set (embed_fields e)"
    using w c e q u by (simp del: not_None_eq)
  show ?thesis
    using h2 c(1) e(1,2) w1 w2 w3 w4 by simp
qed

text \<open>
  C7 as stated fails: with no Discord client set, a triggered watcher's pipeline returns
  at once and nothing is sent, although the order would have been filled.
\<close>

theorem pipeline_without_client_counterexample:
  "sl_running (sl_on_message 0 (Parsed ''market_ticker'' (Some (yes_tick price_0_45)))
       (startStopLoss True sl50 (sl_init False))) = [(0, price_0_45, yes_tick price_0_45)]
   \<and> sl_calls (sl_resume 0 env_filled
        (sl_on_message 0 (Parsed ''market_ticker'' (Some (yes_tick price_0_45)))
           (startStopLoss True sl50 (sl_init False)))) = []
   \<and> executeSellOrder False env_filled sl50 price_0_45 (yes_tick price_0_45) = []"
  by (simp add: sl_defs map_defs sl50_fires_at_0_45 executeSellOrder_def)

section \<open>Start, stop and list\<close>

text \<open>
  On a key that has no entry, \<^verbatim>\<open>stopStopLoss\<close> and \<^verbatim>\<open>stopAlert\<close> return false and change
  nothing. On a key that has an entry they return true, call \<^verbatim>\<open>close()\<close> once on that
  socket and on no other, and delete the entry: the key is no longer listed for the
  user, and a second stop returns false and changes nothing.
\<close>

lemma stop_on_registered_key:
  "(Map_get (activeStopLosses m) (mk_stopLossId u t s) = None
      \<longrightarrow> stopStopLoss u t s m = (False, m))
   \<and> (\<forall>ws. Map_get (activeStopLosses m) (mk_stopLossId u t s) = Some ws
            \<and> ws < length (sl_sockets m)
        \<longrightarrow> fst (stopStopLoss u t s m)
          \<and> sl_sockets (snd (stopStopLoss u t s m)) =
              (sl_sockets m)[ws := (sl_sockets m ! ws)
                               \<lparr>close_calls := Suc (close_calls (sl_sockets m ! ws))\<rparr>]
          \<and> Map_get (activeStopLosses (snd (stopStopLoss u t s m))) (mk_stopLossId u t s) = None
          \<and> mk_stopLossId u t s \<notin> set (getActiveStopLosses u (snd (stopStopLoss u t s m)))
          \<and> stopStopLoss u t s (snd (stopStopLoss u t s m))
              = (False, snd (stopStopLoss u t s m)))
   \<and> (Map_get (activeAlerts am) (mk_alertId u' t' s') = None
        \<longrightarrow> stopAlert u' t' s' am = (False, am))
   \<and> (\<forall>ws. Map_get (activeAlerts am) (mk_alertId u' t' s') = Some ws
            \<and> ws < length (al_sockets am)
        \<longrightarrow> fst (stopAlert u' t' s' am)
          \<and> al_sockets (snd (stopAlert u' t' s' am)) =
              (al_sockets am)[ws := (al_sockets am ! ws)
                                \<lparr>close_calls := Suc (close_calls (al_sockets am ! ws))\<rparr>]
          \<and> Map_get (activeAlerts (snd (stopAlert u' t' s' am))) (mk_alertId u' t' s') = None
          \<and> mk_alertId u' t' s' \<notin> set (getActiveAlerts u' (snd (stopAlert u' t' s' am)))
          \<and> stopAlert u' t' s' (snd (stopAlert u' t' s' am))
              = (False, snd (stopAlert u' t' s' am)))"
proof -
  show ?thesis
    by (auto simp add: stopStopLoss_def stopAlert_def Let_def Map_get_delete_same ws_close_def
        getActiveStopLosses_def getActiveAlerts_def Map_keys_delete)
qed

text \<open>
  C8 fails on the state \<open>sl_superseded\<close>, which the watcher reaches when it is started
  twice and the \<^verbatim>\<open>'close'\<close> event of the first socket arrives: the handler of that event
  has deleted the key, which named the second socket. The second socket is live, with
  \<^verbatim>\<open>close()\<close> never called on it, but the registry is empty: \<^verbatim>\<open>stopStopLoss\<close> on its key
  returns false and changes nothing, and a tick at 0.45 after that still starts the sell
  pipeline on it. The same for \<^verbatim>\<open>stopAlert\<close> on \<open>al_superseded\<close>.
\<close>

theorem stop_misses_unregistered_live_watcher:
  "activeStopLosses sl_superseded = []
   \<and> map (\<lambda>w. (stopLossId w, close_calls w, close_emitted w, hasExecuted w))
        (sl_sockets sl_superseded)
       = [(''42-KXBTC-yes'', 1, True, False), (''42-KXBTC-yes'', 0, False, False)]
   \<and> ws_live (sl_sockets sl_superseded ! 1)
   \<and> mk_stopLossId ''42'' ''KXBTC'' ''yes'' = stopLossId (sl_sockets sl_superseded ! 1)
   \<and> stopStopLoss ''42'' ''KXBTC'' ''yes'' sl_superseded = (False, sl_superseded)
   \<and> sl_running (sl_on_message 1 (Parsed ''market_ticker'' (Some (yes_tick price_0_45)))
        (snd (stopStopLoss ''42'' ''KXBTC'' ''yes'' sl_superseded)))
       = [(1, price_0_45, yes_tick price_0_45)]
   \<and> activeAlerts al_superseded = []
   \<and> map (\<lambda>w. (alertId w, close_calls w, close_emitted w)) (al_sockets al_superseded)
       = [(''42-KXBTC-yes'', 1, True), (''42-KXBTC-yes'', 0, False)]
   \<and> ws_live (al_sockets al_superseded ! 1)
   \<and> mk_alertId ''42'' ''KXBTC'' ''yes'' = alertId (al_sockets al_superseded ! 1)
   \<and> stopAlert ''42'' ''KXBTC'' ''yes'' al_superseded = (False, al_superseded)
   \<and> al_running (al_on_message 1 (Parsed ''market_ticker'' (Some (yes_tick price_0_55)))
        (snd (stopAlert ''42'' ''KXBTC'' ''yes'' al_superseded)))
       = [(1, price_0_55, yes_tick price_0_55)]"
  by (simp add: sl_superseded_eq al_superseded_eq sl_defs al_defs map_defs sample_triggers)

text \<open>
  C10. Listing and stop-all select keys by \<^verbatim>\<open>startsWith(userId)\<close>: for the user ids
  \<^verbatim>\<open>123\<close> and \<^verbatim>\<open>1234\<close>, listing for \<^verbatim>\<open>123\<close> returns the key of the watcher of \<^verbatim>\<open>1234\<close>, and
  stop-all for \<^verbatim>\<open>123\<close> counts it, calls \<^verbatim>\<open>close()\<close> on its socket and deletes its entry,
  in each of the three modules.
\<close>

theorem prefix_selection_crosses_users:
  "getActiveStopLosses ''123'' sl_m1234 = [''1234-KXBTC-yes'']
   \<and> fst (stopAllStopLosses ''123'' sl_m1234) = 1
   \<and> activeStopLosses (snd (stopAllStopLosses ''123'' sl_m1234)) = []
   \<and> map (\<lambda>w. (userId (stopLoss w), close_calls w))
        (sl_sockets (snd (stopAllStopLosses ''123'' sl_m1234))) = [(''1234'', 1)]
   \<and> getActiveAlerts ''123'' al_m1234 = [''1234-KXBTC-yes'']
   \<and> fst (stopAllAlerts ''123'' al_m1234) = 1
   \<and> activeAlerts (snd (stopAllAlerts ''123'' al_m1234)) = []
   \<and> map (\<lambda>w. (a_userId (alert w), close_calls w))
        (al_sockets (snd (stopAllAlerts ''123'' al_m1234))) = [(''1234'', 1)]
   \<and> p_getActiveAlerts p_m1234 = [''1234-KXBTC'']
   \<and> fst (stopAllAlertsForUser ''123'' p_m1234) = 1
   \<and> p_activeAlerts (snd (stopAllAlertsForUser ''123'' p_m1234)) = []
   \<and> map (\<lambda>w. (discordId (p_alert w), close_calls w))
        (p_sockets (snd (stopAllAlertsForUser ''123'' p_m1234))) = [(''1234'', 1)]"
  by (simp add: sl_m1234_def al_m1234_def p_m1234_def sl_defs al_defs p_defs map_defs
      watcher_defs)

text \<open>
  C1 as stated fails: \<^verbatim>\<open>startPositionAlert\<close> on a key that has a watcher returns at once.
  The prior socket is not closed and stays registered, and no new watcher is created.
\<close>

theorem start_on_present_key_counterexample:
  "Map_has (p_activeAlerts (startPositionAlert pa50 p_init)) (mk_alertKey ''42'' ''KXBTC'')
   \<and> startPositionAlert pa50 (startPositionAlert pa50 p_init) = startPositionAlert pa50 p_init
   \<and> map close_calls (p_sockets (startPositionAlert pa50 (startPositionAlert pa50 p_init))) = [0]
   \<and> Map_get (p_activeAlerts (startPositionAlert pa50 (startPositionAlert pa50 p_init)))
        (mk_alertKey ''42'' ''KXBTC'') = Some 0"
  by (simp add: p_defs map_defs pa50_def)

text \<open>
  C1, as amended. On a key that has an entry, \<^verbatim>\<open>startStopLoss\<close> and \<^verbatim>\<open>startAlert\<close> (when
  the new connection can be created) call \<^verbatim>\<open>close()\<close> once on the prior socket, create
  one new socket and put it under the key in place of the prior one, the keys of the map
  staying as they were, each of them once; \<^verbatim>\<open>startPositionAlert\<close> leaves everything as
  it was.
\<close>

theorem start_on_present_key:
  assumes "sid = mk_stopLossId (userId sl) (marketTicker sl) (side_str (side sl))"
    and "Map_get (activeStopLosses m) sid = Some old"
    and "old < length (sl_sockets m)"
    and "distinct (Map_keys (activeStopLosses m))"
    and "aid = mk_alertId (a_userId al) (a_marketTicker al) (side_str (a_side al))"
    and "Map_get (activeAlerts am) aid = Some old'"
    and "old' < length (al_sockets am)"
    and "distinct (Map_keys (activeAlerts am))"
    and "Map_has (p_activeAlerts pm) (mk_alertKey (discordId pal) (p_marketTicker pal))"
  shows "sl_sockets (startStopLoss True sl m) =
           (sl_sockets m)[old := (sl_sockets m ! old)
                             \<lparr>close_calls := Suc (close_calls (sl_sockets m ! old))\<rparr>] @
           [\<lparr>close_calls = 0, close_emitted = False, stopLoss = sl, stopLossId = sid,
             hasExecuted = False\<rparr>]
       \<and> Map_get (activeStopLosses (startStopLoss True sl m)) sid = Some (length (sl_sockets m))
       \<and> Map_keys (activeStopLosses (startStopLoss True sl m)) = Map_keys (activeStopLosses m)
       \<and> distinct (Map_keys (activeStopLosses (startStopLoss True sl m)))
       \<and> al_sockets (startAlert True al am) =
           (al_sockets am)[old' := (al_sockets am ! old')
                              \<lparr>close_calls := Suc (close_calls (al_sockets am ! old'))\<rparr>] @
           [\<lparr>close_calls = 0, close_emitted = False, alert = al, alertId = aid\<rparr>]
       \<and> Map_get (activeAlerts (startAlert True al am)) aid = Some (length (al_sockets am))
       \<and> Map_keys (activeAlerts (startAlert True al am)) = Map_keys (activeAlerts am)
       \<and> distinct (Map_keys (activeAlerts (startAlert True al am)))
       \<and> startPositionAlert pal pm = pm"
proof -
  have a: "Map_has (activeStopLosses m) sid" "Map_has (activeAlerts am) aid"
    using assms(2,6) by (simp_all add: Map_has_def Map_get_def)
  have k: "Map_keys (activeStopLosses (startStopLoss True sl m)) = Map_keys (activeStopLosses m)"
    "Map_keys (activeAlerts (startAlert True al am)) = Map_keys (activeAlerts am)"
    using assms a
    by (simp_all add: startStopLoss_def startAlert_def Let_def Map_keys_set_present)
  show ?thesis
    using assms a k
    by (simp add: startStopLoss_def startAlert_def startPositionAlert_def Let_def ws_close_def
        Map_get_set_same)
qed

text \<open>Starting the watchers of \<open>sl_m1\<close>, \<open>al_m1\<close> and \<open>p_m1\<close> a second time.\<close>

theorem start_on_present_key_witness:
  "Map_get (activeStopLosses sl_m1) ''42-KXBTC-yes'' = Some 0
   \<and> Map_get (activeAlerts al_m1) ''42-KXBTC-yes'' = Some 0
   \<and> Map_has (p_activeAlerts p_m1) ''42-KXBTC''
   \<and> map close_calls (sl_sockets (startStopLoss True sl50 sl_m1)) = [1, 0]
   \<and> activeStopLosses (startStopLoss True sl50 sl_m1) = [(''42-KXBTC-yes'', 1)]
   \<and> map close_calls (al_sockets (startAlert True al50 al_m1)) = [1, 0]
   \<and> activeAlerts (startAlert True al50 al_m1) = [(''42-KXBTC-yes'', 1)]
   \<and> startPositionAlert pa50 p_m1 = p_m1"
proof -
  have k: "''42-KXBTC-yes'' = mk_stopLossId (userId sl50) (marketTicker sl50) (side_str (side sl50))"
    "''42-KXBTC-yes'' = mk_alertId (a_userId al50) (a_marketTicker al50) (side_str (a_side al50))"
    "mk_alertKey (discordId pa50) (p_marketTicker pa50) = ''42-KXBTC''"
    by (simp_all add: mk_stopLossId_def mk_alertId_def mk_alertKey_def sl50_def al50_def pa50_def)
  have h: "Map_get (activeStopLosses sl_m1) ''42-KXBTC-yes'' = Some 0"
    "0 < length (sl_sockets sl_m1)"
    "distinct (Map_keys (activeStopLosses sl_m1))"
    "Map_get (activeAlerts al_m1) ''42-KXBTC-yes'' = Some 0"
    "0 < length (al_sockets al_m1)"
    "distinct (Map_keys (activeAlerts al_m1))"
    "Map_has (p_activeAlerts p_m1) ''42-KXBTC''"
    by (simp_all add: sl_m1_eq al_m1_eq p_m1_eq Map_get_def Map_has_def Map_keys_def)
  have h7: "Map_has (p_activeAlerts p_m1) (mk_alertKey (discordId pa50) (p_marketTicker pa50))"
    using h(7) k(3) by simp
  note w = start_on_present_key [OF k(1) h(1) h(2) h(3) k(2) h(4) h(5) h(6) h7]
  have a: "map close_calls (sl_sockets (startStopLoss True sl50 sl_m1)) = [1, 0]"
    "map close_calls (al_sockets (startAlert True al50 al_m1)) = [1, 0]"
    "startPositionAlert pa50 p_m1 = p_m1"
    using w by (simp_all add: sl_m1_eq al_m1_eq)
  have b: "activeStopLosses (startStopLoss True sl50 sl_m1) = [(''42-KXBTC-yes'', 1)]"
    "activeAlerts (startAlert True al50 al_m1) = [(''42-KXBTC-yes'', 1)]"
    by (simp_all add: sl_m1_eq al_m1_eq sl_defs al_defs map_defs sl50_def al50_def)
  show ?thesis
    using h a b by simp
qed

section \<open>Events that arrive between the steps of a handler\<close>

text \<open>
  C9 fails on the run \<open>sl_both_sold\<close>. The second \<^verbatim>\<open>start\<close> calls \<^verbatim>\<open>close()\<close> on the first
  socket and registers the second; the \<^verbatim>\<open>'close'\<close> handler of the first socket then deletes
  the key, which by now names the second socket. The third \<^verbatim>\<open>start\<close> finds no entry and
  closes nothing: the second and third sockets are both live on the same key, a tick at
  0.45 triggers both, and two sell orders for the whole position of 5 are submitted.
  The same run of \<^verbatim>\<open>AlertManager\<close>, \<open>al_both_notified\<close>, sends two notifications.
\<close>

theorem superseded_close_event_unregisters_new_watcher:
  "activeStopLosses (startStopLoss True sl50 sl_m1) = [(''42-KXBTC-yes'', 1)]
   \<and> map close_calls (sl_sockets (startStopLoss True sl50 sl_m1)) = [1, 0]
   \<and> activeStopLosses sl_superseded = []
   \<and> map (\<lambda>w. (stopLossId w, close_calls w, close_emitted w, hasExecuted w))
        (sl_sockets sl_restarted)
       = [(''42-KXBTC-yes'', 1, True, False), (''42-KXBTC-yes'', 0, False, False),
          (''42-KXBTC-yes'', 0, False, False)]
   \<and> activeStopLosses sl_restarted = [(''42-KXBTC-yes'', 2)]
   \<and> ws_live (sl_sockets sl_restarted ! 1) \<and> ws_live (sl_sockets sl_restarted ! 2)
   \<and> sl_running sl_both_triggered = [(1, price_0_45, yes_tick price_0_45), (2, price_0_45, yes_tick price_0_45)]
   \<and> map order_quantity (filter is_order (sl_calls sl_both_sold)) = [Fin 5, Fin 5]
   \<and> activeAlerts al_superseded = []
   \<and> map (\<lambda>w. (alertId w, close_calls w, close_emitted w)) (al_sockets al_restarted)
       = [(''42-KXBTC-yes'', 1, True), (''42-KXBTC-yes'', 0, False),
          (''42-KXBTC-yes'', 0, False)]
   \<and> ws_live (al_sockets al_restarted ! 1) \<and> ws_live (al_sockets al_restarted ! 2)
   \<and> length (filter is_notification (al_calls al_both_notified)) = 2"
  by (simp add: sl_both_sold_def sl_both_triggered_def sl_restarted_def sl_superseded_def
      al_both_notified_def al_both_triggered_def al_restarted_def al_superseded_def
      sl_m1_eq al_m1_eq sl_defs al_defs map_defs sl50_sel al50_sel sample_triggers
      executeSellOrder_def sendStopLossDM_def sendAlert_def positionQuantity_def or_zero_def
      env_filled_def env_alert_def order_quantity_def)

text \<open>
  C2 fails for the alert watcher of \<^verbatim>\<open>AlertManager\<close>, whose handler has no flag: two
  triggering ticks that arrive before the first \<^verbatim>\<open>sendAlert\<close> has finished, on a socket
  that was never closed, send two notifications.
\<close>

theorem alert_notifies_twice:
  "al_running al_two_ticks = [(0, price_0_55, yes_tick price_0_55), (0, price_0_56, yes_tick price_0_56)]
   \<and> ws_live (al_sockets al_two_ticks ! 0)
   \<and> filter is_notification (al_calls al_two_ticks_done)
       = [SendEmbed ''42'' (alertEmbed al50 price_0_55 (yes_tick price_0_55) None),
          SendEmbed ''42'' (alertEmbed al50 price_0_56 (yes_tick price_0_56) None)]"
  by (simp add: al_two_ticks_done_def al_two_ticks_def al_m1_eq al_defs map_defs al50_sel
      sample_triggers sendAlert_def env_alert_def)

text \<open>
  The stop-loss handler is guarded: it triggers only while \<^verbatim>\<open>hasExecuted\<close> is false and
  sets it at once, so every later tick on the socket leaves the manager as it is.
\<close>

lemma sl_on_message_executed:
  "hasExecuted (sl_sockets m ! ws) \<Longrightarrow> sl_on_message ws raw m = m"
  by (simp add: sl_on_message_def sl_trigger_def Let_def
      split: ws_message.splits option.splits)

lemma sl_on_message_trigger:
  "sl_on_message ws raw m \<noteq> m \<Longrightarrow>
     hasExecuted (sl_sockets (sl_on_message ws raw m) ! ws)
     \<and> (\<exists>p data. sl_running (sl_on_message ws raw m) = sl_running m @ [(ws, p, data)])"
  by (auto simp add: sl_on_message_def Let_def split: option.splits if_splits)

lemma ws_close_length: "length (ws_close ws socks) = length socks"
  by (simp add: ws_close_def)

lemma ws_emit_close_length: "length (ws_emit_close ws socks) = length socks"
  by (simp add: ws_emit_close_def)

lemma ws_close_hasExecuted:
  "hasExecuted (ws_close ws socks ! j) = hasExecuted (socks ! j)"
  by (cases "j = ws") (simp_all add: ws_close_def)

lemma ws_emit_close_hasExecuted:
  "hasExecuted (ws_emit_close ws socks ! j) = hasExecuted (socks ! j)"
  by (cases "j = ws") (simp_all add: ws_emit_close_def)

lemma sl_stop_one_hasExecuted:
  "hasExecuted (sl_sockets (sl_stop_one sid m) ! j) = hasExecuted (sl_sockets m ! j)"
  by (simp add: sl_stop_one_def Let_def ws_close_hasExecuted split: option.splits)

lemma fold_sl_stop_one_hasExecuted:
  "hasExecuted (sl_sockets (fold sl_stop_one ks m) ! j) = hasExecuted (sl_sockets m ! j)"
  by (induction ks arbitrary: m) (simp_all add: sl_stop_one_hasExecuted)

text \<open>No operation of the manager resets \<^verbatim>\<open>hasExecuted\<close>.\<close>

lemma hasExecuted_stays:
  assumes "j < length (sl_sockets m)" and "hasExecuted (sl_sockets m ! j)"
  shows "hasExecuted (sl_sockets (startStopLoss c sl m) ! j)"
    and "hasExecuted (sl_sockets (sl_on_message ws raw m) ! j)"
    and "hasExecuted (sl_sockets (sl_resume i env m) ! j)"
    and "hasExecuted (sl_sockets (sl_on_close ws m) ! j)"
    and "hasExecuted (sl_sockets (snd (stopStopLoss u t s m)) ! j)"
    and "hasExecuted (sl_sockets (snd (stopAllStopLosses u m)) ! j)"
proof -
  show "hasExecuted (sl_sockets (startStopLoss c sl m) ! j)"
    using assms
    by (simp add: startStopLoss_def Let_def nth_append ws_close_length ws_close_hasExecuted
        split: option.splits)
  show "hasExecuted (sl_sockets (sl_on_message ws raw m) ! j)"
    using assms by (cases "j = ws") (simp_all add: sl_on_message_def Let_def split: option.splits)
  show "hasExecuted (sl_sockets (sl_resume i env m) ! j)"
    using assms by (simp add: sl_resume_def Let_def ws_close_hasExecuted split: prod.splits)
  show "hasExecuted (sl_sockets (sl_on_close ws m) ! j)"
    using assms by (simp add: sl_on_close_def ws_emit_close_hasExecuted)
  show "hasExecuted (sl_sockets (snd (stopStopLoss u t s m)) ! j)"
    using assms by (simp add: stopStopLoss_def Let_def ws_close_hasExecuted split: option.splits)
  show "hasExecuted (sl_sockets (snd (stopAllStopLosses u m)) ! j)"
    using assms by (simp add: stopAllStopLosses_def Let_def fold_sl_stop_one_hasExecuted)
qed

text \<open>
  Along every run of the stop-loss manager, whatever arrives and in whatever order, the
  handler of a socket starts the pipeline at most once.
\<close>

lemma fold_sl_stop_one_length:
  "length (sl_sockets (fold sl_stop_one ks m)) = length (sl_sockets m)"
  by (induction ks arbitrary: m)
    (simp_all add: sl_stop_one_def Let_def ws_close_length split: option.splits)

lemma sl_step_length: "length (sl_sockets m) \<le> length (sl_sockets (sl_step e m))"
  by (cases e)
    (auto simp add: startStopLoss_def sl_on_message_def sl_resume_def sl_on_close_def
      stopStopLoss_def stopAllStopLosses_def Let_def ws_close_length ws_emit_close_length
      fold_sl_stop_one_length split: option.splits prod.splits)

lemma sl_step_hasExecuted:
  assumes "j < length (sl_sockets m)" and "hasExecuted (sl_sockets m ! j)"
  shows "hasExecuted (sl_sockets (sl_step e m) ! j)"
  using assms by (cases e) (simp_all add: hasExecuted_stays)

lemma sl_fires_executed:
  "hasExecuted (sl_sockets m ! ws) \<Longrightarrow> sl_fires ws e m = 0"
  by (cases e) (auto simp add: sl_trigger_def Let_def split: ws_message.splits option.splits)

lemma sl_fires_sets_executed:
  "sl_fires ws e m \<noteq> 0 \<Longrightarrow>
     ws < length (sl_sockets m) \<and> hasExecuted (sl_sockets (sl_step e m) ! ws)"
  by (cases e) (auto simp add: sl_on_message_def Let_def split: option.splits if_splits)

lemma sl_fires_le: "sl_fires ws e m \<le> 1"
  by (cases e) (auto split: option.splits)

lemma sl_pipeline_runs_executed:
  "ws < length (sl_sockets m) \<Longrightarrow> hasExecuted (sl_sockets m ! ws)
     \<Longrightarrow> sl_pipeline_runs ws es m = 0"
proof (induction es arbitrary: m)
  case Nil
  then show ?case by simp
next
  case (Cons e es)
  have "ws < length (sl_sockets (sl_step e m))"
    using Cons.prems(1) sl_step_length [of m e] by simp
  moreover have "hasExecuted (sl_sockets (sl_step e m) ! ws)"
    using Cons.prems by (rule sl_step_hasExecuted)
  ultimately have "sl_pipeline_runs ws es (sl_step e m) = 0"
    by (rule Cons.IH)
  then show ?case
    using Cons.prems(2) by (simp add: sl_fires_executed)
qed

lemma sl_pipeline_runs_at_most_once: "sl_pipeline_runs ws es m \<le> 1"
proof (induction es arbitrary: m)
  case Nil
  then show ?case by simp
next
  case (Cons e es)
  show ?case
  proof (cases "sl_fires ws e m = 0")
    case True
    then show ?thesis using Cons.IH [of "sl_step e m"] by simp
  next
    case False
    then have "ws < length (sl_sockets m)" "hasExecuted (sl_sockets (sl_step e m) ! ws)"
      using sl_fires_sets_executed by blast+
    then have "sl_pipeline_runs ws es (sl_step e m) = 0"
      using sl_step_length [of m e] by (intro sl_pipeline_runs_executed) simp_all
    then show ?thesis using sl_fires_le [of ws e m] by simp
  qed
qed


end
